theory Spec2Isabelle
  imports Complex_Main "HOL-Library.Sublist" "HOL-Library.Signed_Division"
begin

section \<open>The CRDP multiplexor (src/chrome/crdpMultiplexing/crdpMultiplexor.ts)\<close>

text \<open>
  Conventions of the embedding.
  \<^item> A JavaScript number that holds an integer is an \<open>int\<close>. Products and sums are rounded
    to the nearest double, as the code computes them; they are exact up to \<open>2 ^ 53\<close>.
    Numbers that are not integers, and magnitudes beyond the largest double, are outside
    the model.
  \<^item> A wire message is represented by the object that \<^verbatim>\<open>JSON.parse\<close> returns, reduced to
    the fields the multiplexor reads (\<^verbatim>\<open>id\<close>, \<^verbatim>\<open>method\<close>) and an opaque rest;
    \<^verbatim>\<open>JSON.parse\<close> and \<^verbatim>\<open>JSON.stringify\<close> are the identity on this representation.
  \<^item> The two objects used as dictionaries are plain objects: the model keeps their own
    properties, and a read of a key they do not own finds the members of
    \<^verbatim>\<open>Object.prototype\<close> before it gives \<^verbatim>\<open>undefined\<close>.
  \<^item> A callback is known by its identity only. Calling it is recorded in the world, tagged
    with the id of the channel that called it; callbacks are taken not to throw and not to
    call back into the multiplexor.
  \<^item> Calls on the wrapped socket and calls of \<^verbatim>\<open>setTimeout\<close> are recorded in the world.
    Calls of the logger are not modelled, except where building the text to log throws.
  \<^item> A thrown \<^verbatim>\<open>Error\<close> is a value of \<open>error\<close>; a function that may throw returns
    \<open>error + 'a\<close> next to the state it leaves behind.
\<close>

subsection \<open>Data\<close>

datatype error =
    MalformedMessage               \<comment> \<open>\<^verbatim>\<open>Message didn't have id nor method\<close>\<close>
  | UnknownChannelForResponse      \<comment> \<open>\<^verbatim>\<open>Didn't find channel for message with id\<close>\<close>
  | MalformedMethodName            \<comment> \<open>\<^verbatim>\<open>The method ... didn't have exactly two parts\<close>\<close>
  | ChannelSentMessageWithoutId    \<comment> \<open>\<^verbatim>\<open>Channel [...] sent a message without an id\<close>\<close>
  | ChannelLimitExceeded           \<comment> \<open>\<^verbatim>\<open>Only 10 channels are supported\<close>\<close>
  | TypeError                      \<comment> \<open>a \<^verbatim>\<open>TypeError\<close> thrown by the runtime\<close>

record message =
  msgId :: "int option"          \<comment> \<open>\<^verbatim>\<open>message.id\<close>, \<open>None\<close> when \<^verbatim>\<open>undefined\<close>\<close>
  msgMethod :: "string option"   \<comment> \<open>\<^verbatim>\<open>message.method\<close>\<close>
  msgRest :: string              \<comment> \<open>every other field\<close>

type_synonym callback = nat

type_synonym pending = "string \<rightharpoonup> message list"

text \<open>
  \<open>enabledDomains\<close> is the set of the own keys of \<^verbatim>\<open>_enabledDomains\<close>: the only value
  the code stores there is \<^verbatim>\<open>true\<close>. \<open>pendingMessagesForDomain\<close> holds the own
  properties of \<^verbatim>\<open>_pendingMessagesForDomain\<close>.
\<close>

record channel =
  name :: string
  chanId :: int
  messageCallbacks :: "callback list"
  enabledDomains :: "string set"
  pendingMessagesForDomain :: "pending option"   \<comment> \<open>\<open>None\<close> is \<^verbatim>\<open>null\<close>\<close>

datatype socket_call =
    Send message
  | On string callback
  | RemoveListener string callback

record world =
  wrappedLikeSocket :: "socket_call list"         \<comment> \<open>calls made on the socket, oldest first\<close>
  called :: "(int \<times> callback \<times> message) list"    \<comment> \<open>callback calls: channel id, callback, data\<close>
  timeouts :: "(int \<times> nat) list"                 \<comment> \<open>\<^verbatim>\<open>setTimeout\<close> calls: channel id, delay\<close>

record multiplexor =
  channels :: "channel list"
  channelWithNoDebuggerNotification :: "string option"

subsection \<open>Numbers of the JavaScript runtime\<close>

text \<open>
  The distance between neighbouring doubles at the magnitude \<open>a\<close>: 1 below \<open>2 ^ 53\<close>,
  doubling with every further binary digit.
\<close>

function ulpOf :: "nat \<Rightarrow> nat" where
  "ulpOf a = (if a < 2 ^ 53 then 1 else 2 * ulpOf (a div 2))"
  by pat_completeness auto
termination
  by (relation "measure (\<lambda>a. a)") auto

declare ulpOf.simps [simp del]

text \<open>The double nearest to an integer; of two equally near, the one with even significand.\<close>

definition toDouble :: "int \<Rightarrow> int" where
  "toDouble x =
     (let a = nat \<bar>x\<bar>; u = ulpOf a; q = a div u; r = a mod u;
          m = (if 2 * r < u then q else if u < 2 * r then q + 1
               else if even q then q else q + 1)
      in sgn x * int (m * u))"

subsection \<open>Strings and arrays of the JavaScript library\<close>

text \<open>\<^verbatim>\<open>s.split(".")\<close>: one part more than there are separators.\<close>

fun split :: "char \<Rightarrow> string \<Rightarrow> string list" where
  "split c [] = [[]]"
| "split c (x # xs) =
     (if x = c then [] # split c xs
      else (case split c xs of p # ps \<Rightarrow> (x # p) # ps | [] \<Rightarrow> [[x]]))"

text \<open>\<^verbatim>\<open>s.endsWith(t)\<close>.\<close>

definition endsWith :: "string \<Rightarrow> string \<Rightarrow> bool" where
  "endsWith s t = (length t \<le> length s \<and> drop (length s - length t) s = t)"

text \<open>\<^verbatim>\<open>s.indexOf(t)\<close>: the first position at which \<open>t\<close> starts, or \<open>-1\<close>.\<close>

fun indexOf :: "string \<Rightarrow> string \<Rightarrow> int" where
  "indexOf [] t = (if t = [] then 0 else - 1)"
| "indexOf (x # xs) t =
     (if prefix t (x # xs) then 0
      else (let r = indexOf xs t in if r < 0 then - 1 else r + 1))"

text \<open>\<^verbatim>\<open>a.indexOf(v)\<close> on an array: the first position of \<open>v\<close>, or \<open>-1\<close>.\<close>

fun arrayIndexOf :: "'a list \<Rightarrow> 'a \<Rightarrow> int" where
  "arrayIndexOf [] v = - 1"
| "arrayIndexOf (x # xs) v =
     (if x = v then 0
      else (let r = arrayIndexOf xs v in if r < 0 then - 1 else r + 1))"

text \<open>
  \<^verbatim>\<open>a.splice(start, deleteCount)\<close>, the array it leaves: a negative \<open>start\<close> counts from
  the end, and both ends are clamped to the array.
\<close>

definition spliceArray :: "'a list \<Rightarrow> int \<Rightarrow> nat \<Rightarrow> 'a list" where
  "spliceArray a start deleteCount =
     (let len = int (length a);
          actualStart = nat (if start < 0 then max (len + start) 0 else min start len)
      in take actualStart a @ drop (actualStart + deleteCount) a)"

text \<open>\<^verbatim>\<open>a[k]\<close> on an array: \<^verbatim>\<open>undefined\<close> outside of it.\<close>

definition at_index :: "'a list \<Rightarrow> int \<Rightarrow> 'a option" where
  "at_index a k = (if 0 \<le> k \<and> k < int (length a) then Some (a ! nat k) else None)"

subsection \<open>Plain objects used as dictionaries\<close>

text \<open>
  The names of the members of \<^verbatim>\<open>Object.prototype\<close>, which every plain object inherits.
\<close>

definition objectPrototypeKeys :: "string list" where
  "objectPrototypeKeys =
     [''constructor'', ''__defineGetter__'', ''__defineSetter__'', ''hasOwnProperty'',
      ''__lookupGetter__'', ''__lookupSetter__'', ''isPrototypeOf'', ''propertyIsEnumerable'',
      ''toString'', ''valueOf'', ''__proto__'', ''toLocaleString'']"

text \<open>
  \<^verbatim>\<open>obj[key]\<close>: the own property, else the inherited member, else \<^verbatim>\<open>undefined\<close>.
\<close>

datatype 'a property = Undefined | Inherited | Own 'a

definition getProperty :: "(string \<rightharpoonup> 'a) \<Rightarrow> string \<Rightarrow> 'a property" where
  "getProperty obj key =
     (case obj key of
        Some v \<Rightarrow> Own v
      | None \<Rightarrow> if key \<in> set objectPrototypeKeys then Inherited else Undefined)"

subsection \<open>Module functions\<close>

definition extractDomain :: "string \<Rightarrow> error + string" where
  "extractDomain method =
     (let methodParts = split CHR ''.'' method
      in if length methodParts = 2 then Inr (methodParts ! 0) else Inl MalformedMethodName)"

definition encodifyChannel :: "int \<Rightarrow> int \<Rightarrow> int" where
  "encodifyChannel channelId i = toDouble (toDouble (i * 10) + channelId)"

text \<open>\<^verbatim>\<open>%\<close> is the remainder that takes the sign of the dividend.\<close>

definition decodifyChannelId :: "int \<Rightarrow> int" where
  "decodifyChannelId encodifiedId = encodifiedId smod 10"

definition decodifyId :: "int \<Rightarrow> int" where
  "decodifyId encodifiedId = \<lfloor>real_of_int encodifiedId / 10\<rfloor>"

subsection \<open>CRDPChannel\<close>

definition timeToPreserveMessagesInMillis :: nat where
  "timeToPreserveMessagesInMillis = 60 * 1000"

definition newChannel :: "string \<Rightarrow> int \<Rightarrow> channel" where
  "newChannel channelName i =
     \<lparr>name = channelName, chanId = i, messageCallbacks = [],
      enabledDomains = {}, pendingMessagesForDomain = Some Map.empty\<rparr>"

text \<open>
  \<^verbatim>\<open>this._enabledDomains[domain]\<close> read as a condition: an own key holds \<^verbatim>\<open>true\<close>, an
  inherited member is a function or an object, and both are truthy.
\<close>

definition enabledDomainsAt :: "channel \<Rightarrow> string \<Rightarrow> bool" where
  "enabledDomainsAt ch domain \<longleftrightarrow>
     domain \<in> enabledDomains ch \<or> domain \<in> set objectPrototypeKeys"

text \<open>
  \<^verbatim>\<open>this._enabledDomains[domain] = true\<close>: the key \<^verbatim>\<open>__proto__\<close> is an accessor whose
  setter ignores a value that is not an object, every other key becomes an own property.
\<close>

definition setEnabledDomain :: "channel \<Rightarrow> string \<Rightarrow> channel" where
  "setEnabledDomain ch domain =
     (if domain = ''__proto__'' then ch
      else ch\<lparr>enabledDomains := insert domain (enabledDomains ch)\<rparr>)"

definition callMessageCallbacks :: "channel \<Rightarrow> world \<Rightarrow> message \<Rightarrow> world" where
  "callMessageCallbacks ch w messageData =
     w\<lparr>called := called w @
          map (\<lambda>callback. (chanId ch, callback, messageData)) (messageCallbacks ch)\<rparr>"

text \<open>
  \<open>storeMessageForLater\<close>: a read of \<^verbatim>\<open>null\<close> throws; an inherited member has no
  \<^verbatim>\<open>push\<close>, so the call of it throws; a key that reads \<^verbatim>\<open>undefined\<close> is no member of
  \<^verbatim>\<open>Object.prototype\<close>, so the assignment of \<^verbatim>\<open>[]\<close> makes an own property.
\<close>

definition storeMessageForLater ::
  "channel \<Rightarrow> string \<Rightarrow> message \<Rightarrow> (error + unit) \<times> channel" where
  "storeMessageForLater ch domain messageData =
     (case pendingMessagesForDomain ch of
        None \<Rightarrow> (Inl TypeError, ch)
      | Some p \<Rightarrow>
          (case getProperty p domain of
             Undefined \<Rightarrow>
               (Inr (), ch\<lparr>pendingMessagesForDomain := Some (p(domain \<mapsto> [messageData]))\<rparr>)
           | Own messagesForDomain \<Rightarrow>
               (Inr (), ch\<lparr>pendingMessagesForDomain :=
                            Some (p(domain \<mapsto> messagesForDomain @ [messageData]))\<rparr>)
           | Inherited \<Rightarrow> (Inl TypeError, ch)))"

definition callDomainMessageCallbacks ::
  "channel \<Rightarrow> world \<Rightarrow> string \<Rightarrow> message \<Rightarrow> (error + unit) \<times> channel \<times> world" where
  "callDomainMessageCallbacks ch w domain messageData =
     (if enabledDomainsAt ch domain then (Inr (), ch, callMessageCallbacks ch w messageData)
      else if pendingMessagesForDomain ch \<noteq> None then
        (case storeMessageForLater ch domain messageData of (r, ch') \<Rightarrow> (r, ch', w))
      else (Inr (), ch, w))"

text \<open>
  The \<^verbatim>\<open>forEach\<close> of \<open>sendUnsentPendingMessages\<close>: it ends at the first call that throws.
\<close>

fun forEachPending ::
  "string \<Rightarrow> message list \<Rightarrow> channel \<Rightarrow> world \<Rightarrow> (error + unit) \<times> channel \<times> world" where
  "forEachPending domain [] ch w = (Inr (), ch, w)"
| "forEachPending domain (pendingMessageData # rest) ch w =
     (case callDomainMessageCallbacks ch w domain pendingMessageData of
        (Inl e, ch', w') \<Rightarrow> (Inl e, ch', w')
      | (Inr u, ch', w') \<Rightarrow> forEachPending domain rest ch' w')"

text \<open>
  \<open>sendUnsentPendingMessages\<close>: an inherited member is not \<^verbatim>\<open>undefined\<close>, so the
  condition passes, \<^verbatim>\<open>delete\<close> finds no own property, and the call of \<^verbatim>\<open>forEach\<close>,
  which the member does not have, throws.
\<close>

definition sendUnsentPendingMessages ::
  "channel \<Rightarrow> world \<Rightarrow> string \<Rightarrow> (error + unit) \<times> channel \<times> world" where
  "sendUnsentPendingMessages ch w domain =
     (case pendingMessagesForDomain ch of
        None \<Rightarrow> (Inr (), ch, w)
      | Some p \<Rightarrow>
          (case getProperty p domain of
             Undefined \<Rightarrow> (Inr (), ch, w)
           | Own pendingMessagesData \<Rightarrow>
               if length (messageCallbacks ch) \<noteq> 0 then
                 forEachPending domain pendingMessagesData
                   (ch\<lparr>pendingMessagesForDomain := Some (p(domain := None))\<rparr>) w
               else (Inr (), ch, w)
           | Inherited \<Rightarrow>
               if length (messageCallbacks ch) \<noteq> 0 then (Inl TypeError, ch, w)
               else (Inr (), ch, w)))"

text \<open>
  \<open>discardUnsentPendingMessages\<close>: \<^verbatim>\<open>Object.keys\<close> of \<^verbatim>\<open>null\<close>, in the text it logs
  first, throws.
\<close>

definition discardUnsentPendingMessages :: "channel \<Rightarrow> (error + unit) \<times> channel" where
  "discardUnsentPendingMessages ch =
     (case pendingMessagesForDomain ch of
        None \<Rightarrow> (Inl TypeError, ch)
      | Some p \<Rightarrow> (Inr (), ch\<lparr>pendingMessagesForDomain := None\<rparr>))"

subsection \<open>CRDPMultiplexor\<close>

definition CRDPMultiplexor_send :: "channel \<Rightarrow> world \<Rightarrow> message \<Rightarrow> (error + unit) \<times> world" where
  "CRDPMultiplexor_send ch w data =
     (case msgId data of
        Some i \<Rightarrow>
          (Inr (), w\<lparr>wrappedLikeSocket := wrappedLikeSocket w @
                      [Send (data\<lparr>msgId := Some (encodifyChannel (chanId ch) i)\<rparr>)]\<rparr>)
      | None \<Rightarrow> (Inl ChannelSentMessageWithoutId, w))"

definition addListenerOfNonMultiplexedEvent :: "world \<Rightarrow> string \<Rightarrow> callback \<Rightarrow> world" where
  "addListenerOfNonMultiplexedEvent w event cb =
     w\<lparr>wrappedLikeSocket := wrappedLikeSocket w @ [On event cb]\<rparr>"

definition removeListenerOfNonMultiplexedEvent :: "world \<Rightarrow> string \<Rightarrow> callback \<Rightarrow> world" where
  "removeListenerOfNonMultiplexedEvent w event cb =
     w\<lparr>wrappedLikeSocket := wrappedLikeSocket w @ [RemoveListener event cb]\<rparr>"

definition addChannel :: "multiplexor \<Rightarrow> string \<Rightarrow> (error + channel) \<times> multiplexor" where
  "addChannel mux channelName =
     (if length (channels mux) \<ge> 10 then (Inl ChannelLimitExceeded, mux)
      else (let ch = newChannel channelName (int (length (channels mux)))
            in (Inr ch, mux\<lparr>channels := channels mux @ [ch]\<rparr>)))"

definition onResponseMessage ::
  "multiplexor \<Rightarrow> world \<Rightarrow> int \<Rightarrow> message \<Rightarrow> (error + unit) \<times> world" where
  "onResponseMessage mux w i data =
     (case at_index (channels mux) (decodifyChannelId i) of
        Some ch \<Rightarrow> (Inr (), callMessageCallbacks ch w (data\<lparr>msgId := Some (decodifyId i)\<rparr>))
      | None \<Rightarrow> (Inl UnknownChannelForResponse, w))"

text \<open>The condition under which the loop of \<open>onDomainNotification\<close> skips a channel.\<close>

definition breaksNotification :: "string option \<Rightarrow> channel \<Rightarrow> string \<Rightarrow> bool" where
  "breaksNotification cfg ch method =
     (case cfg of
        None \<Rightarrow> False
      | Some s \<Rightarrow> s \<noteq> [] \<and> indexOf (name ch) s \<ge> 0 \<and> indexOf method ''Debugger'' \<ge> 0)"

text \<open>The loop of \<open>onDomainNotification\<close>: it ends at the first channel whose call throws.\<close>

fun forEachChannel ::
  "string option \<Rightarrow> string \<Rightarrow> string \<Rightarrow> message \<Rightarrow> channel list \<Rightarrow> world
     \<Rightarrow> (error + unit) \<times> channel list \<times> world" where
  "forEachChannel cfg method domain data [] w = (Inr (), [], w)"
| "forEachChannel cfg method domain data (ch # rest) w =
     (if breaksNotification cfg ch method then
        (case forEachChannel cfg method domain data rest w of
           (r, rest', w') \<Rightarrow> (r, ch # rest', w'))
      else
        (case callDomainMessageCallbacks ch w domain data of
           (Inl e, ch', w1) \<Rightarrow> (Inl e, ch' # rest, w1)
         | (Inr u, ch', w1) \<Rightarrow>
             (case forEachChannel cfg method domain data rest w1 of
                (r, rest', w2) \<Rightarrow> (r, ch' # rest', w2))))"

definition onDomainNotification ::
  "multiplexor \<Rightarrow> world \<Rightarrow> string \<Rightarrow> message \<Rightarrow> (error + unit) \<times> multiplexor \<times> world" where
  "onDomainNotification mux w method data =
     (case extractDomain method of
        Inl e \<Rightarrow> (Inl e, mux, w)
      | Inr domain \<Rightarrow>
          (case forEachChannel (channelWithNoDebuggerNotification mux) method domain data
                  (channels mux) w of
             (r, chs, w') \<Rightarrow> (r, mux\<lparr>channels := chs\<rparr>, w')))"

definition onMessage ::
  "multiplexor \<Rightarrow> world \<Rightarrow> message \<Rightarrow> (error + unit) \<times> multiplexor \<times> world" where
  "onMessage mux w data =
     (case msgId data of
        Some i \<Rightarrow> (case onResponseMessage mux w i data of (r, w') \<Rightarrow> (r, mux, w'))
      | None \<Rightarrow>
          (case msgMethod data of
             None \<Rightarrow> (Inl MalformedMessage, mux, w)
           | Some method \<Rightarrow>
               if method \<noteq> [] then onDomainNotification mux w method data
               else (Inl MalformedMessage, mux, w)))"

subsection \<open>CRDPChannel, the methods that reach the multiplexor\<close>

definition CRDPChannel_send ::
  "channel \<Rightarrow> world \<Rightarrow> message \<Rightarrow> (error + unit) \<times> channel \<times> world" where
  "CRDPChannel_send ch w messageData =
     (case msgMethod messageData of
        None \<Rightarrow> (case CRDPMultiplexor_send ch w messageData of (r, w1) \<Rightarrow> (r, ch, w1))
      | Some method \<Rightarrow>
          if method \<noteq> [] \<and> endsWith method ''.enable'' then
            (case extractDomain method of
               Inl e \<Rightarrow> (Inl e, ch, w)
             | Inr domain \<Rightarrow>
                 (let ch1 = setEnabledDomain ch domain
                  in case CRDPMultiplexor_send ch1 w messageData of
                       (Inl e, w1) \<Rightarrow> (Inl e, ch1, w1)
                     | (Inr u, w1) \<Rightarrow> sendUnsentPendingMessages ch1 w1 domain))
          else (case CRDPMultiplexor_send ch w messageData of (r, w1) \<Rightarrow> (r, ch, w1)))"

definition CRDPChannel_on :: "channel \<Rightarrow> world \<Rightarrow> string \<Rightarrow> callback \<Rightarrow> channel \<times> world" where
  "CRDPChannel_on ch w event cb =
     (if event = ''message'' then
        (let w1 = (if length (messageCallbacks ch) = 0
                   then w\<lparr>timeouts := timeouts w @
                            [(chanId ch, timeToPreserveMessagesInMillis)]\<rparr>
                   else w)
         in (ch\<lparr>messageCallbacks := messageCallbacks ch @ [cb]\<rparr>, w1))
      else (ch, addListenerOfNonMultiplexedEvent w event cb))"

definition CRDPChannel_removeListener ::
  "channel \<Rightarrow> world \<Rightarrow> string \<Rightarrow> callback \<Rightarrow> channel \<times> world" where
  "CRDPChannel_removeListener ch w event cb =
     (if event = ''message'' then
        (let index = arrayIndexOf (messageCallbacks ch) cb
         in (ch\<lparr>messageCallbacks := spliceArray (messageCallbacks ch) index 1\<rparr>, w))
      else (ch, removeListenerOfNonMultiplexedEvent w event cb))"

subsection \<open>Callers\<close>

text \<open>A caller that calls \<open>addChannel\<close> once for each name, in order, and keeps every result.\<close>

fun addChannels :: "multiplexor \<Rightarrow> string list \<Rightarrow> (error + channel) list \<times> multiplexor" where
  "addChannels mux [] = ([], mux)"
| "addChannels mux (channelName # rest) =
     (case addChannel mux channelName of
        (r, mux1) \<Rightarrow> (case addChannels mux1 rest of (rs, mux2) \<Rightarrow> (r # rs, mux2)))"

text \<open>
  The calls that reach one channel: the two deliveries made by the multiplexor, the three
  methods a consumer calls, and the callback given to \<^verbatim>\<open>setTimeout\<close>. What a call
  returns or throws is dropped, the state it leaves is kept.
\<close>

datatype channel_call =
    Notify string message
  | Respond message
  | ChannelSend message
  | Subscribe string callback
  | Unsubscribe string callback
  | TimerFires

fun call :: "channel_call \<Rightarrow> channel \<times> world \<Rightarrow> channel \<times> world" where
  "call (Notify domain data) (ch, w) = snd (callDomainMessageCallbacks ch w domain data)"
| "call (Respond data) (ch, w) = (ch, callMessageCallbacks ch w data)"
| "call (ChannelSend data) (ch, w) = snd (CRDPChannel_send ch w data)"
| "call (Subscribe event cb) (ch, w) = CRDPChannel_on ch w event cb"
| "call (Unsubscribe event cb) (ch, w) = CRDPChannel_removeListener ch w event cb"
| "call TimerFires (ch, w) = (snd (discardUnsentPendingMessages ch), w)"

text \<open>The payloads that a list of calls delivers to the channel.\<close>

fun payloads :: "channel_call list \<Rightarrow> message set" where
  "payloads [] = {}"
| "payloads (Notify domain data # cs) = insert data (payloads cs)"
| "payloads (Respond data # cs) = insert data (payloads cs)"
| "payloads (c # cs) = payloads cs"

text \<open>
  What \<^verbatim>\<open>forEach\<close> over a list of payloads calls: each payload in order, for each
  subscriber in order.
\<close>

definition deliveries :: "channel \<Rightarrow> message list \<Rightarrow> (int \<times> callback \<times> message) list" where
  "deliveries ch ms =
     concat (map (\<lambda>m. map (\<lambda>cb. (chanId ch, cb, m)) (messageCallbacks ch)) ms)"

text \<open>
  A domain is drained on a channel when the channel has enabled it and holds no buffer
  for it.
\<close>

definition drained :: "string \<Rightarrow> channel \<Rightarrow> bool" where
  "drained D ch \<longleftrightarrow>
     D \<in> enabledDomains ch
     \<and> (case pendingMessagesForDomain ch of None \<Rightarrow> True | Some p \<Rightarrow> p D = None)"

subsection \<open>The world before any call, and the scenario of the specification\<close>

definition world0 :: world where
  "world0 = \<lparr>wrappedLikeSocket = [], called = [], timeouts = []\<rparr>"

text \<open>
  Two channels, \<^verbatim>\<open>debugger\<close> (id 0, one subscriber) and \<^verbatim>\<open>tools\<close> (id 1, two
  subscribers), with Debugger notifications withheld from channels named like \<^verbatim>\<open>tools\<close>.
\<close>

definition debuggerChannel :: channel where
  "debuggerChannel = (newChannel ''debugger'' 0)\<lparr>messageCallbacks := [4]\<rparr>"

definition toolsChannel :: channel where
  "toolsChannel = (newChannel ''tools'' 1)\<lparr>messageCallbacks := [7, 8]\<rparr>"

definition twoChannels :: multiplexor where
  "twoChannels = \<lparr>channels = [debuggerChannel, toolsChannel],
                  channelWithNoDebuggerNotification = Some ''tools''\<rparr>"

text \<open>A notification, a request, and the channel \<^verbatim>\<open>tools\<close> with two buffered notifications.\<close>

definition notification :: "string \<Rightarrow> string \<Rightarrow> message" where
  "notification m r = \<lparr>msgId = None, msgMethod = Some m, msgRest = r\<rparr>"

definition request :: "int \<Rightarrow> string \<Rightarrow> message" where
  "request i m = \<lparr>msgId = Some i, msgMethod = Some m, msgRest = []\<rparr>"

definition bufferedChannel :: channel where
  "bufferedChannel =
     (newChannel ''tools'' 1)\<lparr>pendingMessagesForDomain := Some [''Network'' \<mapsto>
        [notification ''Network.requestWillBeSent'' ''a'',
         notification ''Network.loadingFinished'' ''b'']]\<rparr>"

section \<open>Properties\<close>

subsection \<open>Id encoding\<close>

lemma decodifyId_div: "decodifyId e = e div 10"
  by (simp add: decodifyId_def floor_divide_of_int_eq [of e 10, simplified])

lemma decodifyChannelId_nonneg: "0 \<le> e \<Longrightarrow> decodifyChannelId e = e mod 10"
  by (cases "e = 0") (simp_all add: decodifyChannelId_def signed_modulo_int_def)

lemma ulpOf_below: "a < 2 ^ 53 \<Longrightarrow> ulpOf a = 1"
  by (simp add: ulpOf.simps)

lemma ulpOf_next:
  assumes "2 ^ 53 \<le> a" and "a < 2 ^ 54"
  shows "ulpOf a = 2"
proof -
  from assms(2) have "a div 2 < 2 ^ 53" by simp
  then have "ulpOf (a div 2) = 1" by (rule ulpOf_below)
  moreover from assms(1) have "\<not> a < 2 ^ 53" by simp
  ultimately show ?thesis by (subst ulpOf.simps) simp
qed

lemma toDouble_exact:
  assumes "\<bar>x\<bar> \<le> 2 ^ 53"
  shows "toDouble x = x"
proof (cases "\<bar>x\<bar> = 2 ^ 53")
  case True
  then have a: "nat \<bar>x\<bar> = 2 ^ 53" by simp
  have u: "ulpOf (nat \<bar>x\<bar>) = 2" unfolding a by (rule ulpOf_next) simp_all
  have d: "nat \<bar>x\<bar> div 2 = 2 ^ 52" and m: "nat \<bar>x\<bar> mod 2 = 0" unfolding a by simp_all
  have "toDouble x = sgn x * int (2 ^ 52 * 2)"
    unfolding toDouble_def Let_def u d m by simp
  also have "\<dots> = sgn x * \<bar>x\<bar>" using True by simp
  also have "\<dots> = x" by (simp add: mult_sgn_abs)
  finally show ?thesis .
next
  case False
  with assms have "\<bar>x\<bar> < 2 ^ 53" by simp
  then have "nat \<bar>x\<bar> < 2 ^ 53" by (simp add: nat_less_iff)
  then have u: "ulpOf (nat \<bar>x\<bar>) = 1" by (rule ulpOf_below)
  have "toDouble x = sgn x * \<bar>x\<bar>"
    unfolding toDouble_def Let_def u by simp
  then show ?thesis by (simp add: mult_sgn_abs)
qed

lemma encodifyChannel_exact:
  assumes "\<bar>i * 10\<bar> \<le> 2 ^ 53" and "\<bar>i * 10 + c\<bar> \<le> 2 ^ 53"
  shows "encodifyChannel c i = i * 10 + c"
  by (simp add: encodifyChannel_def toDouble_exact [OF assms(1)] toDouble_exact [OF assms(2)])

lemma encodifyChannel_rounds:
  "encodifyChannel 1 900719925474100 = 9007199254741000"
proof -
  have u0: "ulpOf 9007199254741000 = 2" by (rule ulpOf_next) simp_all
  have u1: "ulpOf 9007199254741001 = 2" by (rule ulpOf_next) simp_all
  have t0: "toDouble 9007199254741000 = 9007199254741000"
    by (simp add: toDouble_def u0 Let_def)
  have t1: "toDouble 9007199254741001 = 9007199254741000"
    by (simp add: toDouble_def u1 Let_def)
  show ?thesis by (simp add: encodifyChannel_def t0 t1)
qed

text \<open>
  C1, as amended. For a channel id \<open>c\<close> in \<open>[0,9]\<close> and a request id \<open>i \<ge> 0\<close> with
  \<open>i * 10 + c \<le> 2 ^ 53\<close>, the encoded id is \<open>i * 10 + c\<close>, and decoding it gives back the
  channel id and the request id.
\<close>

theorem encodify_decodify:
  assumes "0 \<le> c" and "c \<le> 9" and "0 \<le> i" and "i * 10 + c \<le> 2 ^ 53"
  shows "encodifyChannel c i = i * 10 + c
       \<and> decodifyChannelId (encodifyChannel c i) = c
       \<and> decodifyId (encodifyChannel c i) = i"
proof -
  have e: "0 \<le> i * 10 + c" using assms by simp
  have "\<bar>i * 10\<bar> \<le> 2 ^ 53" and "\<bar>i * 10 + c\<bar> \<le> 2 ^ 53" using assms by simp_all
  then have x: "encodifyChannel c i = i * 10 + c" by (rule encodifyChannel_exact)
  have "(i * 10 + c) mod 10 = c" using assms by simp
  moreover have "(i * 10 + c) div 10 = i" using assms by simp
  ultimately show ?thesis
    using e by (simp add: x decodifyChannelId_nonneg decodifyId_div)
qed

theorem encodify_decodify_witness:
  "(0::int) \<le> 7 \<and> (7::int) \<le> 9 \<and> (0::int) \<le> 12 \<and> (12::int) * 10 + 7 \<le> 2 ^ 53
   \<and> encodifyChannel 7 12 = 127
   \<and> decodifyChannelId (encodifyChannel 7 12) = 7
   \<and> decodifyId (encodifyChannel 7 12) = 12"
  using encodify_decodify [of 7 12] by auto

text \<open>
  C1 as stated fails for the channel id 1 and the request id 900719925474100: the sum is
  rounded to the even neighbour 9007199254741000, which decodes to the channel 0.
\<close>

theorem encodify_decodify_counterexample:
  "(0::int) \<le> 1 \<and> (1::int) \<le> 9 \<and> (0::int) \<le> 900719925474100
   \<and> encodifyChannel 1 900719925474100 = 9007199254741000
   \<and> decodifyChannelId (encodifyChannel 1 900719925474100) = 0
   \<and> decodifyChannelId (encodifyChannel 1 900719925474100) \<noteq> 1"
  by (simp add: encodifyChannel_rounds decodifyChannelId_def signed_modulo_int_def)

subsection \<open>The library functions\<close>

lemma split_not_Nil: "split c s \<noteq> []"
  by (induction s) (auto split: list.splits)

lemma length_split: "length (split c s) = Suc (length (filter (\<lambda>x. x = c) s))"
  by (induction s) (auto split: list.splits simp: split_not_Nil)

lemma split_no_sep: "c \<notin> set s \<Longrightarrow> split c s = [s]"
  by (induction s) auto

lemma split_append_sep:
  "c \<notin> set d \<Longrightarrow> split c (d @ c # r) = d # split c r"
  by (induction d) auto

lemma indexOf_ge_m1: "- 1 \<le> indexOf s t"
  by (induction s) (auto simp: Let_def)

lemma indexOf_sublist: "0 \<le> indexOf s t \<longleftrightarrow> sublist t s"
proof (induction s)
  case Nil
  then show ?case by auto
next
  case (Cons x xs)
  then show ?case
    using indexOf_ge_m1 [of xs t]
    by (auto simp: Let_def sublist_Cons_right)
qed

lemma arrayIndexOf_ge_m1: "- 1 \<le> arrayIndexOf a v"
  by (induction a) (auto simp: Let_def)

lemma arrayIndexOf_notin: "v \<notin> set a \<Longrightarrow> arrayIndexOf a v = - 1"
  by (induction a) (auto simp: Let_def)

lemma arrayIndexOf_in:
  "v \<in> set a \<Longrightarrow> 0 \<le> arrayIndexOf a v \<and> arrayIndexOf a v < int (length a)"
  by (induction a) (auto simp: Let_def)

lemma spliceArray_nonneg:
  "0 \<le> k \<Longrightarrow> spliceArray a k (Suc 0) = take (nat k) a @ drop (Suc (nat k)) a"
  by (auto simp: spliceArray_def Let_def min_def)

lemma spliceArray_arrayIndexOf_in:
  "v \<in> set a \<Longrightarrow> spliceArray a (arrayIndexOf a v) (Suc 0) = remove1 v a"
proof (induction a)
  case Nil
  then show ?case by simp
next
  case (Cons x xs)
  show ?case
  proof (cases "x = v")
    case True
    then show ?thesis by (simp add: spliceArray_nonneg)
  next
    case False
    with Cons.prems have v: "v \<in> set xs" by simp
    from arrayIndexOf_in [OF v] have r: "0 \<le> arrayIndexOf xs v" by simp
    have "spliceArray (x # xs) (arrayIndexOf xs v + 1) (Suc 0)
            = x # spliceArray xs (arrayIndexOf xs v) (Suc 0)"
      using r by (simp add: spliceArray_nonneg nat_add_distrib)
    with False r Cons.IH [OF v] show ?thesis by (simp add: Let_def)
  qed
qed

lemma spliceArray_minus_one: "spliceArray a (- 1) (Suc 0) = butlast a"
proof (cases "a = []")
  case True
  then show ?thesis by (simp add: spliceArray_def)
next
  case False
  then have "nat (int (length a) - 1) = length a - 1" by simp
  with False show ?thesis by (simp add: spliceArray_def Let_def butlast_conv_take)
qed
lemma extractDomain_enable: "CHR ''.'' \<notin> set D \<Longrightarrow> extractDomain (D @ ''.enable'') = Inr D"
  by (simp add: extractDomain_def split_append_sep)

lemma endsWith_append: "endsWith (s @ t) t"
  by (simp add: endsWith_def)

lemma hd_split_prefix: "prefix (hd (split c s)) s"
  by (induction s) (auto split: list.splits simp: split_not_Nil)

lemma extractDomain_prefix: "extractDomain method = Inr D \<Longrightarrow> prefix D method"
  using hd_split_prefix [of "CHR ''.''" "method"] split_not_Nil [of "CHR ''.''" "method"]
  by (auto simp: extractDomain_def Let_def hd_conv_nth split: if_splits)

lemma extractDomain_member:
  "CHR ''.'' \<notin> set D \<Longrightarrow> CHR ''.'' \<notin> set r \<Longrightarrow> extractDomain (D @ CHR ''.'' # r) = Inr D"
  by (simp add: extractDomain_def split_append_sep split_no_sep)

text \<open>
  A method has the domain \<open>D\<close> exactly when it is \<open>D\<close>, a dot and a member, with no
  other dot; so the methods of domain \<open>D\<close> that end in \<^verbatim>\<open>.enable\<close> are the one
  method \<^verbatim>\<open>D.enable\<close>.
\<close>

lemma split_single: "split c s = [r] \<Longrightarrow> s = r \<and> c \<notin> set r"
proof -
  assume a: "split c s = [r]"
  then have "length (filter (\<lambda>x. x = c) s) = 0"
    using length_split [of c s] by simp
  then have n: "c \<notin> set s" by (auto simp: filter_empty_conv)
  with a split_no_sep [OF n] show ?thesis by simp
qed

lemma split_two:
  "split c s = [d, r] \<Longrightarrow> s = d @ c # r \<and> c \<notin> set d \<and> c \<notin> set r"
proof (induction s arbitrary: d)
  case Nil
  then show ?case by simp
next
  case (Cons x xs)
  show ?case
  proof (cases "x = c")
    case True
    with Cons.prems have "d = []" and "split c xs = [r]" by simp_all
    with True split_single [of c xs r] show ?thesis by simp
  next
    case False
    with Cons.prems obtain p where p: "split c xs = [p, r]" and d: "d = x # p"
      by (auto split: list.splits)
    from Cons.IH [OF p] d False show ?thesis by simp
  qed
qed

lemma extractDomain_Inr_iff:
  "extractDomain m = Inr D \<longleftrightarrow>
     (\<exists>r. m = D @ CHR ''.'' # r \<and> CHR ''.'' \<notin> set D \<and> CHR ''.'' \<notin> set r)"
proof
  assume a: "extractDomain m = Inr D"
  then have l: "length (split CHR ''.'' m) = 2" and h: "split CHR ''.'' m ! 0 = D"
    by (auto simp: extractDomain_def Let_def split: if_splits)
  from l obtain d r where s: "split CHR ''.'' m = [d, r]"
    by (auto simp: length_Suc_conv numeral_2_eq_2)
  with h have "d = D" by simp
  with split_two [OF s] show "\<exists>r. m = D @ CHR ''.'' # r \<and> CHR ''.'' \<notin> set D \<and> CHR ''.'' \<notin> set r"
    by blast
next
  assume "\<exists>r. m = D @ CHR ''.'' # r \<and> CHR ''.'' \<notin> set D \<and> CHR ''.'' \<notin> set r"
  then show "extractDomain m = Inr D" by (auto simp: extractDomain_member)
qed

lemma first_separator:
  "c \<notin> set a \<Longrightarrow> c \<notin> set b \<Longrightarrow> a @ c # r = b @ c # s \<Longrightarrow> a = b \<and> r = s"
proof (induction a arbitrary: b)
  case Nil
  then show ?case by (cases b) auto
next
  case (Cons x a)
  then show ?case by (cases b) auto
qed

lemma last_separator:
  assumes "a @ c # r = b @ c # s" and "c \<notin> set r" and "c \<notin> set s"
  shows "a = b \<and> r = s"
proof -
  from assms(1) have "rev (a @ c # r) = rev (b @ c # s)" by simp
  then have e: "rev r @ c # rev a = rev s @ c # rev b" by simp
  have n: "c \<notin> set (rev r)" "c \<notin> set (rev s)" using assms(2,3) by simp_all
  from first_separator [OF n e] show ?thesis by simp
qed

lemma endsWith_iff: "endsWith s t \<longleftrightarrow> (\<exists>q. s = q @ t)"
proof
  assume "endsWith s t"
  then have "drop (length s - length t) s = t" by (simp add: endsWith_def)
  then have "s = take (length s - length t) s @ t"
    using append_take_drop_id [of "length s - length t" s] by simp
  then show "\<exists>q. s = q @ t" ..
next
  assume "\<exists>q. s = q @ t"
  then show "endsWith s t" by (auto simp: endsWith_def)
qed

lemma enable_method:
  assumes "extractDomain m = Inr D" and "endsWith m ''.enable''"
  shows "m = D @ ''.enable''"
proof -
  from assms(1) obtain r where m: "m = D @ CHR ''.'' # r"
    and r: "CHR ''.'' \<notin> set r"
    by (auto simp: extractDomain_Inr_iff)
  from assms(2) obtain q where "m = q @ ''.enable''"
    by (auto simp: endsWith_iff)
  then have "D @ CHR ''.'' # r = q @ CHR ''.'' # ''enable''"
    using m by simp
  from last_separator [OF this r] have "r = ''enable''" by simp
  with m show ?thesis by simp
qed

lemma enable_method_iff:
  "endsWith m ''.enable'' \<and> extractDomain m = Inr D \<longleftrightarrow>
     m = D @ ''.enable'' \<and> CHR ''.'' \<notin> set D"
proof
  assume a: "endsWith m ''.enable'' \<and> extractDomain m = Inr D"
  then have "m = D @ ''.enable''" by (simp add: enable_method)
  moreover from a have "CHR ''.'' \<notin> set D" by (auto simp: extractDomain_Inr_iff)
  ultimately show "m = D @ ''.enable'' \<and> CHR ''.'' \<notin> set D" ..
next
  assume "m = D @ ''.enable'' \<and> CHR ''.'' \<notin> set D"
  then show "endsWith m ''.enable'' \<and> extractDomain m = Inr D"
    by (simp add: endsWith_append extractDomain_enable)
qed

lemma endsWith_not_Nil: "endsWith s ''.enable'' \<Longrightarrow> s \<noteq> []"
  by (auto simp: endsWith_def)

lemma getProperty_not_inherited:
  "key \<notin> set objectPrototypeKeys \<Longrightarrow>
     getProperty obj key = (case obj key of None \<Rightarrow> Undefined | Some v \<Rightarrow> Own v)"
  by (simp add: getProperty_def split: option.splits)

lemma callDomainMessageCallbacks_cases:
  "(D \<in> enabledDomains ch \<or> D \<in> set objectPrototypeKeys \<longrightarrow>
      callDomainMessageCallbacks ch w D data =
        (Inr (), ch, w\<lparr>called := called w @
                  map (\<lambda>cb. (chanId ch, cb, data)) (messageCallbacks ch)\<rparr>))
   \<and> (D \<notin> enabledDomains ch \<and> D \<notin> set objectPrototypeKeys \<longrightarrow>
        (\<forall>p. pendingMessagesForDomain ch = Some p \<longrightarrow>
           callDomainMessageCallbacks ch w D data =
             (Inr (),
              ch\<lparr>pendingMessagesForDomain :=
                   Some (p(D \<mapsto> (case p D of None \<Rightarrow> [] | Some ms \<Rightarrow> ms) @ [data]))\<rparr>, w)))
   \<and> (D \<notin> enabledDomains ch \<and> D \<notin> set objectPrototypeKeys
        \<and> pendingMessagesForDomain ch = None \<longrightarrow>
        callDomainMessageCallbacks ch w D data = (Inr (), ch, w))"
  by (auto simp: callDomainMessageCallbacks_def callMessageCallbacks_def enabledDomainsAt_def
      storeMessageForLater_def getProperty_not_inherited split: option.splits)

lemma callDomainMessageCallbacks_returns:
  "fst (callDomainMessageCallbacks ch w D data) = Inr ()"
  using callDomainMessageCallbacks_cases [of D ch w data]
  by (cases "pendingMessagesForDomain ch") auto

lemma storeMessageForLater_inherited:
  "pendingMessagesForDomain ch = Some p \<Longrightarrow> p ''toString'' = None \<Longrightarrow>
     storeMessageForLater ch ''toString'' data = (Inl TypeError, ch)"
  by (simp add: storeMessageForLater_def getProperty_def objectPrototypeKeys_def)

subsection \<open>Domain-gated delivery\<close>

text \<open>
  C5. The code at a domain that the channel never enabled and that is the name of a member
  of \<^verbatim>\<open>Object.prototype\<close>: the channel \<^verbatim>\<open>tools\<close> has enabled nothing and its buffer is
  not \<^verbatim>\<open>null\<close>, yet a notification of the domain \<^verbatim>\<open>toString\<close> is delivered to its
  subscribers and not buffered; through \<open>onMessage\<close> it reaches the subscribers of both
  channels. For every other domain the three cases of the claim hold
  (\<open>callDomainMessageCallbacks_cases\<close>).
\<close>

theorem prototype_domain_delivered_live:
  "''toString'' \<notin> enabledDomains toolsChannel
   \<and> pendingMessagesForDomain toolsChannel = Some Map.empty
   \<and> callDomainMessageCallbacks toolsChannel world0 ''toString''
        (notification ''toString.changed'' ''{}'')
      = (Inr (), toolsChannel,
         world0\<lparr>called := [(1, 7, notification ''toString.changed'' ''{}''),
                           (1, 8, notification ''toString.changed'' ''{}'')]\<rparr>)
   \<and> onMessage twoChannels world0 (notification ''toString.changed'' ''{}'')
      = (Inr (), twoChannels,
         world0\<lparr>called := [(0, 4, notification ''toString.changed'' ''{}''),
                           (1, 7, notification ''toString.changed'' ''{}''),
                           (1, 8, notification ''toString.changed'' ''{}'')]\<rparr>)"
proof -
  have d: "extractDomain ''toString.changed'' = Inr ''toString''"
    using extractDomain_member [of "''toString''" "''changed''"] by simp
  have k: "''toString'' \<in> set objectPrototypeKeys" by (simp add: objectPrototypeKeys_def)
  have b: "\<not> breaksNotification (Some ''tools'') debuggerChannel ''toString.changed''"
    "\<not> breaksNotification (Some ''tools'') toolsChannel ''toString.changed''"
    by (simp_all add: breaksNotification_def debuggerChannel_def toolsChannel_def newChannel_def)
  have t: "callDomainMessageCallbacks toolsChannel w ''toString''
        (notification ''toString.changed'' ''{}'')
      = (Inr (), toolsChannel,
         w\<lparr>called := called w @ [(1, 7, notification ''toString.changed'' ''{}''),
                           (1, 8, notification ''toString.changed'' ''{}'')]\<rparr>)" for w
    by (simp add: callDomainMessageCallbacks_def enabledDomainsAt_def k callMessageCallbacks_def
        toolsChannel_def newChannel_def)
  have g: "callDomainMessageCallbacks debuggerChannel w ''toString''
        (notification ''toString.changed'' ''{}'')
      = (Inr (), debuggerChannel,
         w\<lparr>called := called w @ [(0, 4, notification ''toString.changed'' ''{}'')]\<rparr>)" for w
    by (simp add: callDomainMessageCallbacks_def enabledDomainsAt_def k callMessageCallbacks_def
        debuggerChannel_def newChannel_def)
  have m: "msgId (notification ''toString.changed'' ''{}'') = None"
    "msgMethod (notification ''toString.changed'' ''{}'') = Some ''toString.changed''"
    by (simp_all add: notification_def)
  have "onMessage twoChannels world0 (notification ''toString.changed'' ''{}'')
      = (Inr (), twoChannels,
         world0\<lparr>called := [(0, 4, notification ''toString.changed'' ''{}''),
                           (1, 7, notification ''toString.changed'' ''{}''),
                           (1, 8, notification ''toString.changed'' ''{}'')]\<rparr>)"
    by (simp add: onMessage_def m onDomainNotification_def d twoChannels_def b t g)
      (simp add: world0_def)
  moreover have "''toString'' \<notin> enabledDomains toolsChannel"
    "pendingMessagesForDomain toolsChannel = Some Map.empty"
    by (simp_all add: toolsChannel_def newChannel_def)
  moreover have "callDomainMessageCallbacks toolsChannel world0 ''toString''
        (notification ''toString.changed'' ''{}'')
      = (Inr (), toolsChannel,
         world0\<lparr>called := [(1, 7, notification ''toString.changed'' ''{}''),
                           (1, 8, notification ''toString.changed'' ''{}'')]\<rparr>)"
    by (simp add: t) (simp add: world0_def)
  ultimately show ?thesis by simp
qed

subsection \<open>Sending on the shared socket\<close>

text \<open>
  C7, as amended. \<open>CRDPMultiplexor_send\<close> on a message without an id throws
  \<open>ChannelSentMessageWithoutId\<close> and leaves the world as it is: nothing is sent. On a
  message with id \<open>i\<close>, where \<open>i * 10\<close> and \<open>i * 10 + chanId ch\<close> are at most \<open>2 ^ 53\<close>
  in magnitude, it sends the message with the id replaced by \<open>i * 10 + chanId ch\<close>, every
  other field kept, and does nothing else.
\<close>

theorem multiplexor_send:
  "(msgId data = None \<longrightarrow>
      CRDPMultiplexor_send ch w data = (Inl ChannelSentMessageWithoutId, w))
   \<and> (\<forall>i. msgId data = Some i \<and> \<bar>i * 10\<bar> \<le> 2 ^ 53 \<and> \<bar>i * 10 + chanId ch\<bar> \<le> 2 ^ 53 \<longrightarrow>
        CRDPMultiplexor_send ch w data =
          (Inr (), w\<lparr>wrappedLikeSocket := wrappedLikeSocket w @
                       [Send (data\<lparr>msgId := Some (i * 10 + chanId ch)\<rparr>)]\<rparr>))"
  by (simp add: CRDPMultiplexor_send_def encodifyChannel_exact)

theorem multiplexor_send_witness:
  "msgId \<lparr>msgId = None, msgMethod = Some ''Network.enable'', msgRest = ''''\<rparr> = None
   \<and> CRDPMultiplexor_send (newChannel ''tools'' 1) world0
        \<lparr>msgId = None, msgMethod = Some ''Network.enable'', msgRest = ''''\<rparr>
      = (Inl ChannelSentMessageWithoutId, world0)
   \<and> msgId \<lparr>msgId = Some 5, msgMethod = Some ''Network.enable'', msgRest = ''''\<rparr> = Some 5
   \<and> \<bar>(5::int) * 10\<bar> \<le> 2 ^ 53 \<and> \<bar>(5::int) * 10 + chanId (newChannel ''tools'' 1)\<bar> \<le> 2 ^ 53
   \<and> CRDPMultiplexor_send (newChannel ''tools'' 1) world0
        \<lparr>msgId = Some 5, msgMethod = Some ''Network.enable'', msgRest = ''''\<rparr>
      = (Inr (), world0\<lparr>wrappedLikeSocket :=
           [Send \<lparr>msgId = Some 51, msgMethod = Some ''Network.enable'', msgRest = ''''\<rparr>]\<rparr>)"
  using
    multiplexor_send [of "\<lparr>msgId = None, msgMethod = Some ''Network.enable'', msgRest = ''''\<rparr>"
      "newChannel ''tools'' 1" world0]
    multiplexor_send [of "\<lparr>msgId = Some 5, msgMethod = Some ''Network.enable'', msgRest = ''''\<rparr>"
      "newChannel ''tools'' 1" world0]
  by (simp add: newChannel_def world0_def)

text \<open>
  C7 as stated fails for the id 900719925474100 on the channel 1: the id sent is
  9007199254741000, the double nearest to the sum.
\<close>

theorem multiplexor_send_counterexample:
  "msgId (request 900719925474100 ''Network.enable'') = Some 900719925474100
   \<and> chanId (newChannel ''tools'' 1) = 1
   \<and> CRDPMultiplexor_send (newChannel ''tools'' 1) world0
        (request 900719925474100 ''Network.enable'')
      = (Inr (), world0\<lparr>wrappedLikeSocket :=
           [Send (request 9007199254741000 ''Network.enable'')]\<rparr>)
   \<and> (9007199254741000::int) \<noteq> 900719925474100 * 10 + 1"
  by (simp add: CRDPMultiplexor_send_def request_def newChannel_def world0_def
      encodifyChannel_rounds)

text \<open>
  C10, as amended. \<open>CRDPChannel_send\<close> on a message without an id whose method ends in
  \<^verbatim>\<open>.enable\<close>: when the method has exactly two parts, with domain \<open>D\<close>, the send throws
  \<open>ChannelSentMessageWithoutId\<close> and the channel it leaves behind reads \<open>D\<close> as enabled
  (\<open>D\<close> is a new own key unless it is \<^verbatim>\<open>__proto__\<close>); when the method has any other
  number of parts, the send throws the error of \<open>extractDomain\<close> and changes nothing.
\<close>

theorem enable_without_id:
  assumes "msgMethod data = Some method"
      and "endsWith method ''.enable''"
      and "msgId data = None"
  shows "(\<forall>D. extractDomain method = Inr D \<longrightarrow>
            CRDPChannel_send ch w data =
              (Inl ChannelSentMessageWithoutId, setEnabledDomain ch D, w)
            \<and> enabledDomainsAt (setEnabledDomain ch D) D
            \<and> (D \<noteq> ''__proto__'' \<longrightarrow>
                 setEnabledDomain ch D = ch\<lparr>enabledDomains := insert D (enabledDomains ch)\<rparr>))
       \<and> (\<forall>e. extractDomain method = Inl e \<longrightarrow> CRDPChannel_send ch w data = (Inl e, ch, w))"
proof (intro conjI allI impI)
  fix D
  assume "extractDomain method = Inr D"
  with assms endsWith_not_Nil [OF assms(2)]
  show "CRDPChannel_send ch w data =
          (Inl ChannelSentMessageWithoutId, setEnabledDomain ch D, w)"
    by (simp add: CRDPChannel_send_def CRDPMultiplexor_send_def Let_def)
next
  fix D
  show "enabledDomainsAt (setEnabledDomain ch D) D"
    by (simp add: enabledDomainsAt_def setEnabledDomain_def objectPrototypeKeys_def)
next
  fix D :: string
  assume "D \<noteq> ''__proto__''"
  then show "setEnabledDomain ch D = ch\<lparr>enabledDomains := insert D (enabledDomains ch)\<rparr>"
    by (simp add: setEnabledDomain_def)
next
  fix e
  assume "extractDomain method = Inl e"
  with assms endsWith_not_Nil [OF assms(2)]
  show "CRDPChannel_send ch w data = (Inl e, ch, w)"
    by (simp add: CRDPChannel_send_def)
qed

theorem enable_without_id_witness:
  "msgMethod (notification ''Network.enable'' '''') = Some ''Network.enable''
   \<and> endsWith ''Network.enable'' ''.enable''
   \<and> msgId (notification ''Network.enable'' '''') = None
   \<and> extractDomain ''Network.enable'' = Inr ''Network''
   \<and> ''Network'' \<noteq> ''__proto__''
   \<and> ''Network'' \<notin> enabledDomains (newChannel ''tools'' 1)
   \<and> CRDPChannel_send (newChannel ''tools'' 1) world0 (notification ''Network.enable'' '''')
      = (Inl ChannelSentMessageWithoutId,
         (newChannel ''tools'' 1)\<lparr>enabledDomains := {''Network''}\<rparr>, world0)
   \<and> msgMethod (notification ''a.b.enable'' '''') = Some ''a.b.enable''
   \<and> endsWith ''a.b.enable'' ''.enable''
   \<and> msgId (notification ''a.b.enable'' '''') = None
   \<and> extractDomain ''a.b.enable'' = Inl MalformedMethodName
   \<and> CRDPChannel_send (newChannel ''tools'' 1) world0 (notification ''a.b.enable'' '''')
      = (Inl MalformedMethodName, newChannel ''tools'' 1, world0)"
proof -
  have m: "msgMethod (notification ''Network.enable'' '''') = Some ''Network.enable''"
    and i: "msgId (notification ''Network.enable'' '''') = None"
    by (simp_all add: notification_def)
  have e: "endsWith ''Network.enable'' ''.enable''" by (simp add: endsWith_def)
  have d: "extractDomain ''Network.enable'' = Inr ''Network''"
    using extractDomain_enable [of "''Network''"] by simp
  have m': "msgMethod (notification ''a.b.enable'' '''') = Some ''a.b.enable''"
    and i': "msgId (notification ''a.b.enable'' '''') = None"
    by (simp_all add: notification_def)
  have e': "endsWith ''a.b.enable'' ''.enable''" by (simp add: endsWith_def)
  have d': "extractDomain ''a.b.enable'' = Inl MalformedMethodName"
    by (simp add: extractDomain_def)
  have n: "''Network'' \<notin> enabledDomains (newChannel ''tools'' 1)"
    by (simp add: newChannel_def)
  note A = enable_without_id [OF m e i, of "newChannel ''tools'' 1" world0, THEN conjunct1,
      rule_format, OF d]
  have s: "setEnabledDomain (newChannel ''tools'' 1) ''Network''
         = (newChannel ''tools'' 1)\<lparr>enabledDomains := {''Network''}\<rparr>"
    using A by (simp add: newChannel_def)
  note B = enable_without_id [OF m' e' i', of "newChannel ''tools'' 1" world0, THEN conjunct2,
      rule_format, OF d']
  from A B s m i e d m' i' e' d' n show ?thesis by simp
qed

text \<open>
  C10 as stated fails for the method \<^verbatim>\<open>a.b.enable\<close>: it ends in \<^verbatim>\<open>.enable\<close> and the
  message has no id, but the send throws \<open>MalformedMethodName\<close> and enables nothing.
\<close>

theorem enable_without_id_counterexample:
  "msgMethod (notification ''a.b.enable'' '''') = Some ''a.b.enable''
   \<and> endsWith ''a.b.enable'' ''.enable''
   \<and> msgId (notification ''a.b.enable'' '''') = None
   \<and> CRDPChannel_send (newChannel ''tools'' 1) world0 (notification ''a.b.enable'' '''')
      = (Inl MalformedMethodName, newChannel ''tools'' 1, world0)
   \<and> enabledDomains (newChannel ''tools'' 1) = {}"
  by (simp add: notification_def endsWith_def CRDPChannel_send_def extractDomain_def
      newChannel_def)

subsection \<open>Removing a subscriber\<close>

lemma removeListener_registered:
  "cb \<in> set (messageCallbacks ch) \<Longrightarrow>
     CRDPChannel_removeListener ch w ''message'' cb =
       (ch\<lparr>messageCallbacks := remove1 cb (messageCallbacks ch)\<rparr>, w)"
  by (simp add: CRDPChannel_removeListener_def spliceArray_arrayIndexOf_in)

lemma removeListener_not_registered:
  "cb \<notin> set (messageCallbacks ch) \<Longrightarrow>
     CRDPChannel_removeListener ch w ''message'' cb =
       (ch\<lparr>messageCallbacks := butlast (messageCallbacks ch)\<rparr>, w)"
  by (simp add: CRDPChannel_removeListener_def arrayIndexOf_notin spliceArray_minus_one)

text \<open>
  C9. Removing a callback that is not in the subscriber list: \<^verbatim>\<open>indexOf\<close> gives
  \<open>-1\<close>, and \<^verbatim>\<open>splice(-1, 1)\<close> removes the last subscriber. With subscribers
  \<open>[1, 2]\<close>, removing the callback \<open>3\<close> leaves \<open>[1]\<close>.
\<close>

theorem removeListener_drops_last:
  "3 \<notin> set (messageCallbacks ((newChannel ''tools'' 1)\<lparr>messageCallbacks := [1, 2]\<rparr>))
   \<and> CRDPChannel_removeListener ((newChannel ''tools'' 1)\<lparr>messageCallbacks := [1, 2]\<rparr>)
        world0 ''message'' 3
      = ((newChannel ''tools'' 1)\<lparr>messageCallbacks := [1]\<rparr>, world0)"
  by (simp add: CRDPChannel_removeListener_def spliceArray_def newChannel_def)

subsection \<open>Adding channels\<close>

lemma addChannel_below_limit:
  "length (channels mux) < 10 \<Longrightarrow>
     addChannel mux nm =
       (Inr (newChannel nm (int (length (channels mux)))),
        mux\<lparr>channels := channels mux @ [newChannel nm (int (length (channels mux)))]\<rparr>)"
  by (simp add: addChannel_def Let_def)

lemma addChannel_at_limit:
  "10 \<le> length (channels mux) \<Longrightarrow> addChannel mux nm = (Inl ChannelLimitExceeded, mux)"
  by (simp add: addChannel_def)

lemma addChannels_from:
  "addChannels mux names =
     (map (\<lambda>(k, nm). Inr (newChannel nm (int k)))
        (enumerate (length (channels mux)) (take (10 - length (channels mux)) names))
      @ replicate (length names - (10 - length (channels mux))) (Inl ChannelLimitExceeded),
      mux\<lparr>channels := channels mux @
            map (\<lambda>(k, nm). newChannel nm (int k))
              (enumerate (length (channels mux)) (take (10 - length (channels mux)) names))\<rparr>)"
proof (induction names arbitrary: mux)
  case Nil
  then show ?case by simp
next
  case (Cons nm names)
  show ?case
  proof (cases "length (channels mux) < 10")
    case True
    then have t: "10 - length (channels mux) = Suc (10 - Suc (length (channels mux)))"
      by arith
    show ?thesis
      by (simp add: addChannel_below_limit [OF True] Cons.IH t)
  next
    case False
    then have "10 - length (channels mux) = 0" by arith
    with False show ?thesis
      by (simp add: addChannel_at_limit Cons.IH)
  qed
qed

text \<open>
  C6. A call of \<open>addChannel\<close> on a multiplexor with fewer than ten channels returns a new
  channel whose id is the number of channels at the time of the call, with the given name,
  no subscriber, nothing enabled and an empty buffer, and appends it to the channel list;
  nothing else of the multiplexor changes. A call on a multiplexor with ten channels
  throws \<open>ChannelLimitExceeded\<close> and changes nothing. So from a multiplexor without
  channels the calls for the first ten names return channels with the ids 0 to 9, and
  every later call, the eleventh first, throws.
\<close>

theorem addChannel_first_ten:
  "(length (channels mux) < 10 \<longrightarrow>
      addChannel mux nm =
        (Inr \<lparr>name = nm, chanId = int (length (channels mux)), messageCallbacks = [],
              enabledDomains = {}, pendingMessagesForDomain = Some Map.empty\<rparr>,
         mux\<lparr>channels := channels mux @
           [\<lparr>name = nm, chanId = int (length (channels mux)), messageCallbacks = [],
             enabledDomains = {}, pendingMessagesForDomain = Some Map.empty\<rparr>]\<rparr>))
   \<and> (10 \<le> length (channels mux) \<longrightarrow> addChannel mux nm = (Inl ChannelLimitExceeded, mux))
   \<and> (channels mux = [] \<longrightarrow>
        addChannels mux names =
          (map (\<lambda>(k, nm).
                  Inr \<lparr>name = nm, chanId = int k, messageCallbacks = [],
                        enabledDomains = {}, pendingMessagesForDomain = Some Map.empty\<rparr>)
             (enumerate 0 (take 10 names))
           @ replicate (length names - 10) (Inl ChannelLimitExceeded),
           mux\<lparr>channels :=
             map (\<lambda>(k, nm).
                    \<lparr>name = nm, chanId = int k, messageCallbacks = [],
                     enabledDomains = {}, pendingMessagesForDomain = Some Map.empty\<rparr>)
               (enumerate 0 (take 10 names))\<rparr>))"
proof (intro conjI impI)
  assume "length (channels mux) < 10"
  then show "addChannel mux nm =
        (Inr \<lparr>name = nm, chanId = int (length (channels mux)), messageCallbacks = [],
              enabledDomains = {}, pendingMessagesForDomain = Some Map.empty\<rparr>,
         mux\<lparr>channels := channels mux @
           [\<lparr>name = nm, chanId = int (length (channels mux)), messageCallbacks = [],
             enabledDomains = {}, pendingMessagesForDomain = Some Map.empty\<rparr>]\<rparr>)"
    by (simp add: addChannel_below_limit newChannel_def)
next
  assume "10 \<le> length (channels mux)"
  then show "addChannel mux nm = (Inl ChannelLimitExceeded, mux)"
    by (rule addChannel_at_limit)
next
  assume "channels mux = []"
  then show "addChannels mux names =
          (map (\<lambda>(k, nm).
                  Inr \<lparr>name = nm, chanId = int k, messageCallbacks = [],
                        enabledDomains = {}, pendingMessagesForDomain = Some Map.empty\<rparr>)
             (enumerate 0 (take 10 names))
           @ replicate (length names - 10) (Inl ChannelLimitExceeded),
           mux\<lparr>channels :=
             map (\<lambda>(k, nm).
                    \<lparr>name = nm, chanId = int k, messageCallbacks = [],
                     enabledDomains = {}, pendingMessagesForDomain = Some Map.empty\<rparr>)
               (enumerate 0 (take 10 names))\<rparr>)"
    using addChannels_from [of mux names] by (simp add: newChannel_def)
qed

theorem addChannel_first_ten_witness:
  "channels \<lparr>channels = [], channelWithNoDebuggerNotification = None\<rparr> = []
   \<and> length (channels \<lparr>channels = [], channelWithNoDebuggerNotification = None\<rparr>) < 10
   \<and> addChannel \<lparr>channels = [], channelWithNoDebuggerNotification = None\<rparr> ''a''
      = (Inr \<lparr>name = ''a'', chanId = 0, messageCallbacks = [], enabledDomains = {},
            pendingMessagesForDomain = Some Map.empty\<rparr>,
         \<lparr>channels = [\<lparr>name = ''a'', chanId = 0, messageCallbacks = [], enabledDomains = {},
            pendingMessagesForDomain = Some Map.empty\<rparr>], channelWithNoDebuggerNotification = None\<rparr>)
   \<and> addChannels \<lparr>channels = [], channelWithNoDebuggerNotification = None\<rparr>
        [''a'', ''b'', ''c'', ''d'', ''e'', ''f'', ''g'', ''h'', ''i'', ''j'', ''k'']
      = ([Inr \<lparr>name = ''a'', chanId = 0, messageCallbacks = [], enabledDomains = {},
            pendingMessagesForDomain = Some Map.empty\<rparr>,
          Inr \<lparr>name = ''b'', chanId = 1, messageCallbacks = [], enabledDomains = {},
            pendingMessagesForDomain = Some Map.empty\<rparr>,
          Inr \<lparr>name = ''c'', chanId = 2, messageCallbacks = [], enabledDomains = {},
            pendingMessagesForDomain = Some Map.empty\<rparr>,
          Inr \<lparr>name = ''d'', chanId = 3, messageCallbacks = [], enabledDomains = {},
            pendingMessagesForDomain = Some Map.empty\<rparr>,
          Inr \<lparr>name = ''e'', chanId = 4, messageCallbacks = [], enabledDomains = {},
            pendingMessagesForDomain = Some Map.empty\<rparr>,
          Inr \<lparr>name = ''f'', chanId = 5, messageCallbacks = [], enabledDomains = {},
            pendingMessagesForDomain = Some Map.empty\<rparr>,
          Inr \<lparr>name = ''g'', chanId = 6, messageCallbacks = [], enabledDomains = {},
            pendingMessagesForDomain = Some Map.empty\<rparr>,
          Inr \<lparr>name = ''h'', chanId = 7, messageCallbacks = [], enabledDomains = {},
            pendingMessagesForDomain = Some Map.empty\<rparr>,
          Inr \<lparr>name = ''i'', chanId = 8, messageCallbacks = [], enabledDomains = {},
            pendingMessagesForDomain = Some Map.empty\<rparr>,
          Inr \<lparr>name = ''j'', chanId = 9, messageCallbacks = [], enabledDomains = {},
            pendingMessagesForDomain = Some Map.empty\<rparr>,
          Inl ChannelLimitExceeded],
         \<lparr>channels =
            [\<lparr>name = ''a'', chanId = 0, messageCallbacks = [], enabledDomains = {},
            pendingMessagesForDomain = Some Map.empty\<rparr>,
            \<lparr>name = ''b'', chanId = 1, messageCallbacks = [], enabledDomains = {},
            pendingMessagesForDomain = Some Map.empty\<rparr>,
            \<lparr>name = ''c'', chanId = 2, messageCallbacks = [], enabledDomains = {},
            pendingMessagesForDomain = Some Map.empty\<rparr>,
            \<lparr>name = ''d'', chanId = 3, messageCallbacks = [], enabledDomains = {},
            pendingMessagesForDomain = Some Map.empty\<rparr>,
            \<lparr>name = ''e'', chanId = 4, messageCallbacks = [], enabledDomains = {},
            pendingMessagesForDomain = Some Map.empty\<rparr>,
            \<lparr>name = ''f'', chanId = 5, messageCallbacks = [], enabledDomains = {},
            pendingMessagesForDomain = Some Map.empty\<rparr>,
            \<lparr>name = ''g'', chanId = 6, messageCallbacks = [], enabledDomains = {},
            pendingMessagesForDomain = Some Map.empty\<rparr>,
            \<lparr>name = ''h'', chanId = 7, messageCallbacks = [], enabledDomains = {},
            pendingMessagesForDomain = Some Map.empty\<rparr>,
            \<lparr>name = ''i'', chanId = 8, messageCallbacks = [], enabledDomains = {},
            pendingMessagesForDomain = Some Map.empty\<rparr>,
            \<lparr>name = ''j'', chanId = 9, messageCallbacks = [], enabledDomains = {},
            pendingMessagesForDomain = Some Map.empty\<rparr>],
          channelWithNoDebuggerNotification = None\<rparr>)
   \<and> 10 \<le> length
        [\<lparr>name = ''a'', chanId = 0, messageCallbacks = [], enabledDomains = {},
            pendingMessagesForDomain = Some Map.empty\<rparr>,
            \<lparr>name = ''b'', chanId = 1, messageCallbacks = [], enabledDomains = {},
            pendingMessagesForDomain = Some Map.empty\<rparr>,
            \<lparr>name = ''c'', chanId = 2, messageCallbacks = [], enabledDomains = {},
            pendingMessagesForDomain = Some Map.empty\<rparr>,
            \<lparr>name = ''d'', chanId = 3, messageCallbacks = [], enabledDomains = {},
            pendingMessagesForDomain = Some Map.empty\<rparr>,
            \<lparr>name = ''e'', chanId = 4, messageCallbacks = [], enabledDomains = {},
            pendingMessagesForDomain = Some Map.empty\<rparr>,
            \<lparr>name = ''f'', chanId = 5, messageCallbacks = [], enabledDomains = {},
            pendingMessagesForDomain = Some Map.empty\<rparr>,
            \<lparr>name = ''g'', chanId = 6, messageCallbacks = [], enabledDomains = {},
            pendingMessagesForDomain = Some Map.empty\<rparr>,
            \<lparr>name = ''h'', chanId = 7, messageCallbacks = [], enabledDomains = {},
            pendingMessagesForDomain = Some Map.empty\<rparr>,
            \<lparr>name = ''i'', chanId = 8, messageCallbacks = [], enabledDomains = {},
            pendingMessagesForDomain = Some Map.empty\<rparr>,
            \<lparr>name = ''j'', chanId = 9, messageCallbacks = [], enabledDomains = {},
            pendingMessagesForDomain = Some Map.empty\<rparr>]
   \<and> addChannel
        \<lparr>channels =
            [\<lparr>name = ''a'', chanId = 0, messageCallbacks = [], enabledDomains = {},
            pendingMessagesForDomain = Some Map.empty\<rparr>,
            \<lparr>name = ''b'', chanId = 1, messageCallbacks = [], enabledDomains = {},
            pendingMessagesForDomain = Some Map.empty\<rparr>,
            \<lparr>name = ''c'', chanId = 2, messageCallbacks = [], enabledDomains = {},
            pendingMessagesForDomain = Some Map.empty\<rparr>,
            \<lparr>name = ''d'', chanId = 3, messageCallbacks = [], enabledDomains = {},
            pendingMessagesForDomain = Some Map.empty\<rparr>,
            \<lparr>name = ''e'', chanId = 4, messageCallbacks = [], enabledDomains = {},
            pendingMessagesForDomain = Some Map.empty\<rparr>,
            \<lparr>name = ''f'', chanId = 5, messageCallbacks = [], enabledDomains = {},
            pendingMessagesForDomain = Some Map.empty\<rparr>,
            \<lparr>name = ''g'', chanId = 6, messageCallbacks = [], enabledDomains = {},
            pendingMessagesForDomain = Some Map.empty\<rparr>,
            \<lparr>name = ''h'', chanId = 7, messageCallbacks = [], enabledDomains = {},
            pendingMessagesForDomain = Some Map.empty\<rparr>,
            \<lparr>name = ''i'', chanId = 8, messageCallbacks = [], enabledDomains = {},
            pendingMessagesForDomain = Some Map.empty\<rparr>,
            \<lparr>name = ''j'', chanId = 9, messageCallbacks = [], enabledDomains = {},
            pendingMessagesForDomain = Some Map.empty\<rparr>],
          channelWithNoDebuggerNotification = None\<rparr> ''k''
      = (Inl ChannelLimitExceeded,
         \<lparr>channels =
            [\<lparr>name = ''a'', chanId = 0, messageCallbacks = [], enabledDomains = {},
            pendingMessagesForDomain = Some Map.empty\<rparr>,
            \<lparr>name = ''b'', chanId = 1, messageCallbacks = [], enabledDomains = {},
            pendingMessagesForDomain = Some Map.empty\<rparr>,
            \<lparr>name = ''c'', chanId = 2, messageCallbacks = [], enabledDomains = {},
            pendingMessagesForDomain = Some Map.empty\<rparr>,
            \<lparr>name = ''d'', chanId = 3, messageCallbacks = [], enabledDomains = {},
            pendingMessagesForDomain = Some Map.empty\<rparr>,
            \<lparr>name = ''e'', chanId = 4, messageCallbacks = [], enabledDomains = {},
            pendingMessagesForDomain = Some Map.empty\<rparr>,
            \<lparr>name = ''f'', chanId = 5, messageCallbacks = [], enabledDomains = {},
            pendingMessagesForDomain = Some Map.empty\<rparr>,
            \<lparr>name = ''g'', chanId = 6, messageCallbacks = [], enabledDomains = {},
            pendingMessagesForDomain = Some Map.empty\<rparr>,
            \<lparr>name = ''h'', chanId = 7, messageCallbacks = [], enabledDomains = {},
            pendingMessagesForDomain = Some Map.empty\<rparr>,
            \<lparr>name = ''i'', chanId = 8, messageCallbacks = [], enabledDomains = {},
            pendingMessagesForDomain = Some Map.empty\<rparr>,
            \<lparr>name = ''j'', chanId = 9, messageCallbacks = [], enabledDomains = {},
            pendingMessagesForDomain = Some Map.empty\<rparr>],
          channelWithNoDebuggerNotification = None\<rparr>)"
proof -
  let ?mux0 = "\<lparr>channels = [], channelWithNoDebuggerNotification = None\<rparr>"
  let ?chs = "[\<lparr>name = ''a'', chanId = 0, messageCallbacks = [], enabledDomains = {},
            pendingMessagesForDomain = Some Map.empty\<rparr>,
            \<lparr>name = ''b'', chanId = 1, messageCallbacks = [], enabledDomains = {},
            pendingMessagesForDomain = Some Map.empty\<rparr>,
            \<lparr>name = ''c'', chanId = 2, messageCallbacks = [], enabledDomains = {},
            pendingMessagesForDomain = Some Map.empty\<rparr>,
            \<lparr>name = ''d'', chanId = 3, messageCallbacks = [], enabledDomains = {},
            pendingMessagesForDomain = Some Map.empty\<rparr>,
            \<lparr>name = ''e'', chanId = 4, messageCallbacks = [], enabledDomains = {},
            pendingMessagesForDomain = Some Map.empty\<rparr>,
            \<lparr>name = ''f'', chanId = 5, messageCallbacks = [], enabledDomains = {},
            pendingMessagesForDomain = Some Map.empty\<rparr>,
            \<lparr>name = ''g'', chanId = 6, messageCallbacks = [], enabledDomains = {},
            pendingMessagesForDomain = Some Map.empty\<rparr>,
            \<lparr>name = ''h'', chanId = 7, messageCallbacks = [], enabledDomains = {},
            pendingMessagesForDomain = Some Map.empty\<rparr>,
            \<lparr>name = ''i'', chanId = 8, messageCallbacks = [], enabledDomains = {},
            pendingMessagesForDomain = Some Map.empty\<rparr>,
            \<lparr>name = ''j'', chanId = 9, messageCallbacks = [], enabledDomains = {},
            pendingMessagesForDomain = Some Map.empty\<rparr>]"
  let ?mux10 = "\<lparr>channels = ?chs, channelWithNoDebuggerNotification = None\<rparr>"
  have e: "channels ?mux0 = []" and l: "length (channels ?mux0) < 10"
    and f: "10 \<le> length (channels ?mux10)"
    by simp_all
  note T = addChannel_first_ten [of ?mux0 "''a''" "[''a'', ''b'', ''c'', ''d'', ''e'', ''f'', ''g'', ''h'', ''i'', ''j'', ''k'']"]
  note A = T [THEN conjunct1, rule_format, OF l]
  note B = T [THEN conjunct2, THEN conjunct2, rule_format, OF e]
  note C = addChannel_first_ten [of ?mux10 "''k''" "[]", THEN conjunct2, THEN conjunct1,
      rule_format, OF f]
  from A have A': "addChannel ?mux0 ''a''
      = (Inr \<lparr>name = ''a'', chanId = 0, messageCallbacks = [], enabledDomains = {},
            pendingMessagesForDomain = Some Map.empty\<rparr>, \<lparr>channels = [\<lparr>name = ''a'', chanId = 0, messageCallbacks = [], enabledDomains = {},
            pendingMessagesForDomain = Some Map.empty\<rparr>], channelWithNoDebuggerNotification = None\<rparr>)"
    by simp
  from B have B': "addChannels ?mux0 [''a'', ''b'', ''c'', ''d'', ''e'', ''f'', ''g'', ''h'', ''i'', ''j'', ''k'']
      = ([Inr \<lparr>name = ''a'', chanId = 0, messageCallbacks = [], enabledDomains = {},
            pendingMessagesForDomain = Some Map.empty\<rparr>,
          Inr \<lparr>name = ''b'', chanId = 1, messageCallbacks = [], enabledDomains = {},
            pendingMessagesForDomain = Some Map.empty\<rparr>,
          Inr \<lparr>name = ''c'', chanId = 2, messageCallbacks = [], enabledDomains = {},
            pendingMessagesForDomain = Some Map.empty\<rparr>,
          Inr \<lparr>name = ''d'', chanId = 3, messageCallbacks = [], enabledDomains = {},
            pendingMessagesForDomain = Some Map.empty\<rparr>,
          Inr \<lparr>name = ''e'', chanId = 4, messageCallbacks = [], enabledDomains = {},
            pendingMessagesForDomain = Some Map.empty\<rparr>,
          Inr \<lparr>name = ''f'', chanId = 5, messageCallbacks = [], enabledDomains = {},
            pendingMessagesForDomain = Some Map.empty\<rparr>,
          Inr \<lparr>name = ''g'', chanId = 6, messageCallbacks = [], enabledDomains = {},
            pendingMessagesForDomain = Some Map.empty\<rparr>,
          Inr \<lparr>name = ''h'', chanId = 7, messageCallbacks = [], enabledDomains = {},
            pendingMessagesForDomain = Some Map.empty\<rparr>,
          Inr \<lparr>name = ''i'', chanId = 8, messageCallbacks = [], enabledDomains = {},
            pendingMessagesForDomain = Some Map.empty\<rparr>,
          Inr \<lparr>name = ''j'', chanId = 9, messageCallbacks = [], enabledDomains = {},
            pendingMessagesForDomain = Some Map.empty\<rparr>, Inl ChannelLimitExceeded], ?mux10)"
    by (simp del: addChannels.simps)
  from e l A' B' f C show ?thesis by (simp del: addChannels.simps)
qed

subsection \<open>Responses\<close>







subsection \<open>Fan-out of notifications\<close>

lemma breaksNotification_iff:
  "breaksNotification cfg ch method \<longleftrightarrow>
     (\<exists>s. cfg = Some s \<and> s \<noteq> [] \<and> sublist s (name ch) \<and> sublist ''Debugger'' method)"
  by (cases cfg) (simp_all add: breaksNotification_def indexOf_sublist)

lemma callDomainMessageCallbacks_split:
  "callDomainMessageCallbacks ch w D data =
     (Inr (), fst (snd (callDomainMessageCallbacks ch w0 D data)),
      w\<lparr>called := called w @
           (if enabledDomainsAt ch D
            then map (\<lambda>cb. (chanId ch, cb, data)) (messageCallbacks ch) else [])\<rparr>)"
  using callDomainMessageCallbacks_cases [of D ch w data]
    callDomainMessageCallbacks_cases [of D ch w0 data]
  by (cases "pendingMessagesForDomain ch") (auto simp: enabledDomainsAt_def)

lemma forEachChannel_map:
  "forEachChannel cfg method D data chs w =
     (Inr (),
      map (\<lambda>ch. if breaksNotification cfg ch method then ch
                 else fst (snd (callDomainMessageCallbacks ch w0 D data))) chs,
      w\<lparr>called := called w @
           concat (map (\<lambda>ch. if breaksNotification cfg ch method
                                 \<or> \<not> enabledDomainsAt ch D then []
                              else map (\<lambda>cb. (chanId ch, cb, data)) (messageCallbacks ch)) chs)\<rparr>)"
proof (induction chs arbitrary: w)
  case Nil
  then show ?case by simp
next
  case (Cons ch chs)
  show ?case
  proof (cases "breaksNotification cfg ch method")
    case True
    then show ?thesis by (simp add: Cons.IH)
  next
    case False
    then show ?thesis
      by (simp add: Cons.IH callDomainMessageCallbacks_split [of ch w D data w0])
  qed
qed

text \<open>
  C2, as amended. For a notification whose method has domain \<open>D\<close>, the loop skips a
  channel exactly when the suppression string is configured and not empty, occurs in the
  channel's name, and the text \<^verbatim>\<open>Debugger\<close> occurs anywhere in the method; this holds of
  every method of the domain \<^verbatim>\<open>Debugger\<close>. A skipped channel is left as it is and none of
  its subscribers is called; every other channel gets the domain-gated delivery.
\<close>

theorem debugger_suppression:
  assumes "extractDomain method = Inr D"
  shows "(\<forall>ch. breaksNotification (channelWithNoDebuggerNotification mux) ch method \<longleftrightarrow>
            (\<exists>s. channelWithNoDebuggerNotification mux = Some s \<and> s \<noteq> []
                 \<and> sublist s (name ch) \<and> sublist ''Debugger'' method))
       \<and> (D = ''Debugger'' \<longrightarrow> sublist ''Debugger'' method)
       \<and> onDomainNotification mux w method data =
           (Inr (),
            mux\<lparr>channels :=
              map (\<lambda>ch. if breaksNotification (channelWithNoDebuggerNotification mux) ch method
                         then ch else fst (snd (callDomainMessageCallbacks ch w D data)))
                (channels mux)\<rparr>,
            w\<lparr>called := called w @
              concat (map (\<lambda>ch.
                  if breaksNotification (channelWithNoDebuggerNotification mux) ch method
                     \<or> \<not> enabledDomainsAt ch D then []
                  else map (\<lambda>cb. (chanId ch, cb, data)) (messageCallbacks ch))
                (channels mux))\<rparr>)"
proof (intro conjI allI impI)
  fix ch
  show "breaksNotification (channelWithNoDebuggerNotification mux) ch method \<longleftrightarrow>
          (\<exists>s. channelWithNoDebuggerNotification mux = Some s \<and> s \<noteq> []
               \<and> sublist s (name ch) \<and> sublist ''Debugger'' method)"
    by (rule breaksNotification_iff)
next
  assume "D = ''Debugger''"
  with extractDomain_prefix [OF assms] show "sublist ''Debugger'' method"
    by (simp add: prefix_imp_sublist)
next
  show "onDomainNotification mux w method data =
           (Inr (),
            mux\<lparr>channels :=
              map (\<lambda>ch. if breaksNotification (channelWithNoDebuggerNotification mux) ch method
                         then ch else fst (snd (callDomainMessageCallbacks ch w D data)))
                (channels mux)\<rparr>,
            w\<lparr>called := called w @
              concat (map (\<lambda>ch.
                  if breaksNotification (channelWithNoDebuggerNotification mux) ch method
                     \<or> \<not> enabledDomainsAt ch D then []
                  else map (\<lambda>cb. (chanId ch, cb, data)) (messageCallbacks ch))
                (channels mux))\<rparr>)"
    using assms
    by (simp add: onDomainNotification_def
        forEachChannel_map [of _ "method" D data "channels mux" w w])
qed

theorem debugger_suppression_witness:
  "extractDomain ''Debugger.paused'' = Inr ''Debugger''
   \<and> breaksNotification (channelWithNoDebuggerNotification twoChannels) toolsChannel
        ''Debugger.paused''
   \<and> \<not> breaksNotification (channelWithNoDebuggerNotification twoChannels) debuggerChannel
        ''Debugger.paused''
   \<and> onDomainNotification twoChannels world0 ''Debugger.paused''
        \<lparr>msgId = None, msgMethod = Some ''Debugger.paused'', msgRest = ''{}''\<rparr>
      = (Inr (),
         twoChannels\<lparr>channels :=
           [debuggerChannel\<lparr>pendingMessagesForDomain := Some [''Debugger'' \<mapsto>
              [\<lparr>msgId = None, msgMethod = Some ''Debugger.paused'', msgRest = ''{}''\<rparr>]]\<rparr>,
            toolsChannel]\<rparr>,
         world0)"
proof -
  have d: "extractDomain ''Debugger.paused'' = Inr ''Debugger''"
    using extractDomain_member [of "''Debugger''" "''paused''"] by simp
  have t: "breaksNotification (channelWithNoDebuggerNotification twoChannels) toolsChannel
        ''Debugger.paused''"
    by (simp add: breaksNotification_def twoChannels_def toolsChannel_def newChannel_def)
  have g: "\<not> breaksNotification (channelWithNoDebuggerNotification twoChannels) debuggerChannel
        ''Debugger.paused''"
    by (simp add: breaksNotification_def twoChannels_def debuggerChannel_def newChannel_def)
  have c: "channels twoChannels = [debuggerChannel, toolsChannel]"
    by (simp add: twoChannels_def)
  have b: "fst (snd (callDomainMessageCallbacks debuggerChannel world0 ''Debugger''
        \<lparr>msgId = None, msgMethod = Some ''Debugger.paused'', msgRest = ''{}''\<rparr>))
      = debuggerChannel\<lparr>pendingMessagesForDomain := Some [''Debugger'' \<mapsto>
              [\<lparr>msgId = None, msgMethod = Some ''Debugger.paused'', msgRest = ''{}''\<rparr>]]\<rparr>"
    by (simp add: callDomainMessageCallbacks_def debuggerChannel_def newChannel_def
        storeMessageForLater_def enabledDomainsAt_def getProperty_def objectPrototypeKeys_def)
  have n: "\<not> enabledDomainsAt debuggerChannel ''Debugger''"
    by (simp add: enabledDomainsAt_def objectPrototypeKeys_def debuggerChannel_def
        newChannel_def)
  from debugger_suppression [OF d, of twoChannels world0
      "\<lparr>msgId = None, msgMethod = Some ''Debugger.paused'', msgRest = ''{}''\<rparr>"]
  have "onDomainNotification twoChannels world0 ''Debugger.paused''
        \<lparr>msgId = None, msgMethod = Some ''Debugger.paused'', msgRest = ''{}''\<rparr>
      = (Inr (),
         twoChannels\<lparr>channels :=
           [debuggerChannel\<lparr>pendingMessagesForDomain := Some [''Debugger'' \<mapsto>
              [\<lparr>msgId = None, msgMethod = Some ''Debugger.paused'', msgRest = ''{}''\<rparr>]]\<rparr>,
            toolsChannel]\<rparr>,
         world0)"
    by (simp add: c t g b n)
  with d t g show ?thesis by simp
qed

text \<open>
  C2 as stated fails for the method \<^verbatim>\<open>DOMDebugger.changed\<close>: its domain is not
  \<^verbatim>\<open>Debugger\<close>, and still the channel \<^verbatim>\<open>tools\<close> is skipped, while the channel
  \<^verbatim>\<open>debugger\<close> buffers the notification.
\<close>

theorem debugger_suppression_counterexample:
  "extractDomain ''DOMDebugger.changed'' = Inr ''DOMDebugger''
   \<and> ''DOMDebugger'' \<noteq> ''Debugger''
   \<and> breaksNotification (channelWithNoDebuggerNotification twoChannels) toolsChannel
        ''DOMDebugger.changed''
   \<and> onDomainNotification twoChannels world0 ''DOMDebugger.changed''
        \<lparr>msgId = None, msgMethod = Some ''DOMDebugger.changed'', msgRest = ''{}''\<rparr>
      = (Inr (),
         twoChannels\<lparr>channels :=
           [debuggerChannel\<lparr>pendingMessagesForDomain := Some [''DOMDebugger'' \<mapsto>
              [\<lparr>msgId = None, msgMethod = Some ''DOMDebugger.changed'', msgRest = ''{}''\<rparr>]]\<rparr>,
            toolsChannel]\<rparr>,
         world0)"
proof -
  have d: "extractDomain ''DOMDebugger.changed'' = Inr ''DOMDebugger''"
    using extractDomain_member [of "''DOMDebugger''" "''changed''"] by simp
  have t: "breaksNotification (channelWithNoDebuggerNotification twoChannels) toolsChannel
        ''DOMDebugger.changed''"
    by (simp add: breaksNotification_def twoChannels_def toolsChannel_def newChannel_def)
  have g: "\<not> breaksNotification (channelWithNoDebuggerNotification twoChannels) debuggerChannel
        ''DOMDebugger.changed''"
    by (simp add: breaksNotification_def twoChannels_def debuggerChannel_def newChannel_def)
  have "onDomainNotification twoChannels world0 ''DOMDebugger.changed''
        \<lparr>msgId = None, msgMethod = Some ''DOMDebugger.changed'', msgRest = ''{}''\<rparr>
      = (Inr (),
         twoChannels\<lparr>channels :=
           [debuggerChannel\<lparr>pendingMessagesForDomain := Some [''DOMDebugger'' \<mapsto>
              [\<lparr>msgId = None, msgMethod = Some ''DOMDebugger.changed'', msgRest = ''{}''\<rparr>]]\<rparr>,
            toolsChannel]\<rparr>,
         world0)"
    using t g
    by (simp add: onDomainNotification_def d twoChannels_def callDomainMessageCallbacks_def
        debuggerChannel_def newChannel_def storeMessageForLater_def enabledDomainsAt_def
        getProperty_def objectPrototypeKeys_def)
  with d t show ?thesis by simp
qed

subsection \<open>Enabling a domain\<close>

lemma enabledDomainsAt_setEnabledDomain: "enabledDomainsAt (setEnabledDomain ch d) d"
  by (simp add: enabledDomainsAt_def setEnabledDomain_def objectPrototypeKeys_def)

lemma setEnabledDomain_insert:
  "d \<notin> set objectPrototypeKeys \<Longrightarrow>
     setEnabledDomain ch d = ch\<lparr>enabledDomains := insert d (enabledDomains ch)\<rparr>"
  by (auto simp: setEnabledDomain_def objectPrototypeKeys_def)

lemma forEachPending_live:
  "enabledDomainsAt ch D \<Longrightarrow>
     forEachPending D ms ch w = (Inr (), ch, w\<lparr>called := called w @ deliveries ch ms\<rparr>)"
proof (induction ms arbitrary: w)
  case Nil
  then show ?case by (simp add: deliveries_def)
next
  case (Cons m ms)
  then show ?case
    by (simp add: callDomainMessageCallbacks_def callMessageCallbacks_def deliveries_def)
qed

lemma sendUnsentPendingMessages_enabled:
  assumes "enabledDomainsAt ch D"
  shows "sendUnsentPendingMessages ch w D =
     (case pendingMessagesForDomain ch of
        None \<Rightarrow> (Inr (), ch, w)
      | Some p \<Rightarrow>
          (case getProperty p D of
             Undefined \<Rightarrow> (Inr (), ch, w)
           | Own ms \<Rightarrow>
               if messageCallbacks ch \<noteq> [] then
                 (Inr (), ch\<lparr>pendingMessagesForDomain := Some (p(D := None))\<rparr>,
                  w\<lparr>called := called w @ deliveries ch ms\<rparr>)
               else (Inr (), ch, w)
           | Inherited \<Rightarrow>
               if messageCallbacks ch \<noteq> [] then (Inl TypeError, ch, w) else (Inr (), ch, w)))"
proof -
  have "forEachPending D ms (ch\<lparr>pendingMessagesForDomain := Some (p(D := None))\<rparr>) w
       = (Inr (), ch\<lparr>pendingMessagesForDomain := Some (p(D := None))\<rparr>,
          w\<lparr>called := called w @ deliveries ch ms\<rparr>)" for p ms
    using forEachPending_live [of "ch\<lparr>pendingMessagesForDomain := Some (p(D := None))\<rparr>" D]
      assms
    by (simp add: deliveries_def enabledDomainsAt_def)
  then show ?thesis
    by (simp add: sendUnsentPendingMessages_def split: option.splits property.splits)
qed

lemma CRDPChannel_send_enable:
  assumes "msgMethod data = Some m" and "endsWith m ''.enable''"
      and "extractDomain m = Inr D" and "msgId data = Some i"
  shows "CRDPChannel_send ch w data =
     sendUnsentPendingMessages (setEnabledDomain ch D)
       (w\<lparr>wrappedLikeSocket := wrappedLikeSocket w @
            [Send (data\<lparr>msgId := Some (encodifyChannel (chanId ch) i)\<rparr>)]\<rparr>) D"
proof -
  have "chanId (setEnabledDomain ch D) = chanId ch" by (simp add: setEnabledDomain_def)
  with assms endsWith_not_Nil [OF assms(2)] show ?thesis
    by (simp add: CRDPChannel_send_def CRDPMultiplexor_send_def Let_def)
qed

lemma drained_callDomainMessageCallbacks:
  "drained D ch \<Longrightarrow> drained D (fst (snd (callDomainMessageCallbacks ch w d data)))"
  by (auto simp: drained_def callDomainMessageCallbacks_def storeMessageForLater_def
      enabledDomainsAt_def split: option.splits property.splits)

lemma drained_sendUnsentPendingMessages:
  assumes "enabledDomainsAt ch d" and "drained D ch"
  shows "drained D (fst (snd (sendUnsentPendingMessages ch w d)))"
  using assms
  by (auto simp: sendUnsentPendingMessages_enabled drained_def
      split: option.splits property.splits)

lemma drained_setEnabledDomain: "drained D ch \<Longrightarrow> drained D (setEnabledDomain ch d)"
  by (simp add: drained_def setEnabledDomain_def)

lemma drained_CRDPChannel_send:
  assumes "drained D ch"
  shows "drained D (fst (snd (CRDPChannel_send ch w data)))"
proof (cases "msgMethod data")
  case None
  with assms show ?thesis
    by (simp add: CRDPChannel_send_def split: prod.splits)
next
  case (Some m)
  show ?thesis
  proof (cases "m \<noteq> [] \<and> endsWith m ''.enable''")
    case False
    with Some assms show ?thesis
      by (auto simp: CRDPChannel_send_def split: prod.splits)
  next
    case True
    show ?thesis
    proof (cases "extractDomain m")
      case (Inl e)
      with True Some assms show ?thesis
        by (simp add: CRDPChannel_send_def)
    next
      case (Inr d)
      have d1: "drained D (setEnabledDomain ch d)" using assms by (rule drained_setEnabledDomain)
      show ?thesis
      proof (cases "msgId data")
        case None
        with Inr True Some d1 show ?thesis
          by (simp add: CRDPChannel_send_def CRDPMultiplexor_send_def Let_def)
      next
        case (Some i)
        from drained_sendUnsentPendingMessages [OF enabledDomainsAt_setEnabledDomain d1]
        show ?thesis
          using Inr True \<open>msgMethod data = Some m\<close> Some
          by (simp add: CRDPChannel_send_enable [of data m d i])
      qed
    qed
  qed
qed

lemma drained_call: "drained D (fst s) \<Longrightarrow> drained D (fst (call c s))"
proof (cases s)
  case (Pair ch w)
  assume "drained D (fst s)"
  with Pair have d: "drained D ch" by simp
  show ?thesis
  proof (cases c)
    case (Notify d' m)
    with Pair d show ?thesis by (simp add: drained_callDomainMessageCallbacks)
  next
    case (Respond m)
    with Pair d show ?thesis by simp
  next
    case (ChannelSend m)
    with Pair d show ?thesis by (simp add: drained_CRDPChannel_send)
  next
    case (Subscribe e cb)
    with Pair d show ?thesis by (simp add: CRDPChannel_on_def drained_def Let_def)
  next
    case (Unsubscribe e cb)
    with Pair d show ?thesis by (simp add: CRDPChannel_removeListener_def drained_def Let_def)
  next
    case TimerFires
    with Pair d show ?thesis
      by (simp add: discardUnsentPendingMessages_def drained_def split: option.splits)
  qed
qed

lemma drained_calls: "drained D (fst s) \<Longrightarrow> drained D (fst (fold call cs s))"
  by (induction cs arbitrary: s) (simp_all add: drained_call)

lemma drained_send_again:
  assumes "msgMethod data = Some m" and "endsWith m ''.enable''"
      and "extractDomain m = Inr D" and "msgId data = Some i"
      and "D \<notin> set objectPrototypeKeys" and "drained D ch"
  shows "CRDPChannel_send ch w data =
     (Inr (), ch, w\<lparr>wrappedLikeSocket := wrappedLikeSocket w @
                     [Send (data\<lparr>msgId := Some (encodifyChannel (chanId ch) i)\<rparr>)]\<rparr>)"
proof -
  from assms(6) have e: "D \<in> enabledDomains ch" by (simp add: drained_def)
  then have "insert D (enabledDomains ch) = enabledDomains ch" by auto
  then have u: "setEnabledDomain ch D = ch"
    by (simp add: setEnabledDomain_insert [OF assms(5)])
  from e have a: "enabledDomainsAt ch D" by (simp add: enabledDomainsAt_def)
  from assms(6) show ?thesis
    by (simp add: CRDPChannel_send_enable [OF assms(1-4)] u
        sendUnsentPendingMessages_enabled [OF a] getProperty_not_inherited [OF assms(5)]
        drained_def split: option.splits)
qed

lemma chanId_call: "chanId (fst (call c s)) = chanId (fst s)"
proof (cases s)
  case (Pair ch w)
  show ?thesis
  proof (cases c)
    case (Notify d m)
    with Pair show ?thesis
      by (simp add: callDomainMessageCallbacks_def storeMessageForLater_def
          split: option.splits property.splits)
  next
    case (Respond m)
    with Pair show ?thesis by simp
  next
    case (ChannelSend m)
    have s: "chanId (fst (snd (sendUnsentPendingMessages c' w' d))) = chanId c'" for c' w' d
    proof (cases "enabledDomainsAt c' d")
      case True
      then show ?thesis
        by (simp add: sendUnsentPendingMessages_enabled split: option.splits property.splits)
    next
      case False
      then have "d \<notin> set objectPrototypeKeys" by (simp add: enabledDomainsAt_def)
      have "chanId (fst (snd (forEachPending d ms c'' w''))) = chanId c''" for ms c'' w''
      proof (induction ms arbitrary: c'' w'')
        case Nil
        then show ?case by simp
      next
        case (Cons x xs)
        have "chanId (fst (snd (callDomainMessageCallbacks c'' w'' d x))) = chanId c''"
          by (simp add: callDomainMessageCallbacks_def storeMessageForLater_def
              split: option.splits property.splits)
        with Cons.IH show ?case
          by (auto split: prod.splits sum.splits)
      qed
      then show ?thesis
        by (simp add: sendUnsentPendingMessages_def split: option.splits property.splits)
    qed
    have "chanId (setEnabledDomain x d) = chanId x" for x d
      by (simp add: setEnabledDomain_def)
    with s ChannelSend Pair show ?thesis
      by (auto simp: CRDPChannel_send_def CRDPMultiplexor_send_def Let_def
          split: option.splits sum.splits prod.splits)
  next
    case (Subscribe e cb)
    with Pair show ?thesis by (simp add: CRDPChannel_on_def Let_def)
  next
    case (Unsubscribe e cb)
    with Pair show ?thesis by (simp add: CRDPChannel_removeListener_def Let_def)
  next
    case TimerFires
    with Pair show ?thesis
      by (simp add: discardUnsentPendingMessages_def split: option.splits)
  qed
qed

lemma chanId_calls: "chanId (fst (fold call cs s)) = chanId (fst s)"
  by (induction cs arbitrary: s) (simp_all add: chanId_call)

lemma enable_parts:
  "endsWith ''Network.enable'' ''.enable''"
  "extractDomain ''Network.enable'' = Inr ''Network''"
  "''Network'' \<notin> set objectPrototypeKeys"
  by (simp_all add: endsWith_def extractDomain_def objectPrototypeKeys_def)

lemma enable_prototype_domain_throws:
  "CRDPChannel_send toolsChannel world0 (request 5 ''toString.enable'')
     = (Inl TypeError, toolsChannel\<lparr>enabledDomains := {''toString''}\<rparr>,
        world0\<lparr>wrappedLikeSocket := [Send (request 51 ''toString.enable'')]\<rparr>)"
proof -
  have "encodifyChannel 1 5 = 51" by (simp add: encodifyChannel_exact)
  then show ?thesis
    by (simp add: CRDPChannel_send_def CRDPMultiplexor_send_def request_def endsWith_def
        extractDomain_def setEnabledDomain_def sendUnsentPendingMessages_def getProperty_def
        objectPrototypeKeys_def toolsChannel_def newChannel_def world0_def)
qed

text \<open>
  C3, as amended. Sending a message whose method ends in \<^verbatim>\<open>.enable\<close>, with a domain
  \<open>D\<close> that is not the name of a member of \<^verbatim>\<open>Object.prototype\<close>, and which carries an id
  \<open>i\<close> with \<open>i * 10\<close> and \<open>i * 10 + chanId ch\<close> at most \<open>2 ^ 53\<close> in magnitude: on a
  channel whose buffer is not \<^verbatim>\<open>null\<close> and that has a subscriber, the message is
  forwarded, every payload buffered for \<open>D\<close> is delivered to the subscribers in the order
  of arrival, and the buffer for \<open>D\<close> is cleared; on a channel without a subscriber, or
  whose buffer is \<^verbatim>\<open>null\<close>, the message is forwarded, \<open>D\<close> is enabled, nothing is delivered
  and the buffer is left as it is. After an enable made with a subscriber, and whatever
  calls reach the channel in between, another enable of \<open>D\<close> forwards the message and does
  nothing else.
\<close>

theorem enable_flushes_pending:
  assumes "msgMethod data = Some m" and "endsWith m ''.enable''"
      and "extractDomain m = Inr D" and "D \<notin> set objectPrototypeKeys"
      and "msgId data = Some i"
      and "\<bar>i * 10\<bar> \<le> 2 ^ 53" and "\<bar>i * 10 + chanId ch\<bar> \<le> 2 ^ 53"
  shows "(\<forall>p. pendingMessagesForDomain ch = Some p \<and> messageCallbacks ch \<noteq> [] \<longrightarrow>
            CRDPChannel_send ch w data =
              (Inr (),
               ch\<lparr>enabledDomains := insert D (enabledDomains ch),
                  pendingMessagesForDomain := Some (p(D := None))\<rparr>,
               w\<lparr>wrappedLikeSocket := wrappedLikeSocket w @
                     [Send (data\<lparr>msgId := Some (i * 10 + chanId ch)\<rparr>)],
                 called := called w @
                     deliveries ch (case p D of None \<Rightarrow> [] | Some ms \<Rightarrow> ms)\<rparr>))
       \<and> (pendingMessagesForDomain ch = None \<or> messageCallbacks ch = [] \<longrightarrow>
            CRDPChannel_send ch w data =
              (Inr (),
               ch\<lparr>enabledDomains := insert D (enabledDomains ch)\<rparr>,
               w\<lparr>wrappedLikeSocket := wrappedLikeSocket w @
                     [Send (data\<lparr>msgId := Some (i * 10 + chanId ch)\<rparr>)]\<rparr>))
       \<and> (\<forall>cs ch2 w2 data2 i2.
             messageCallbacks ch \<noteq> []
             \<and> fold call cs (snd (CRDPChannel_send ch w data)) = (ch2, w2)
             \<and> msgMethod data2 = Some m \<and> msgId data2 = Some i2
             \<and> \<bar>i2 * 10\<bar> \<le> 2 ^ 53 \<and> \<bar>i2 * 10 + chanId ch\<bar> \<le> 2 ^ 53 \<longrightarrow>
             CRDPChannel_send ch2 w2 data2 =
               (Inr (), ch2,
                w2\<lparr>wrappedLikeSocket := wrappedLikeSocket w2 @
                      [Send (data2\<lparr>msgId := Some (i2 * 10 + chanId ch)\<rparr>)]\<rparr>))"
proof (intro conjI allI impI)
  note x = encodifyChannel_exact [OF assms(6,7)]
  note s = CRDPChannel_send_enable [OF assms(1,2,3,5)] setEnabledDomain_insert [OF assms(4)]
  have a: "enabledDomainsAt (ch\<lparr>enabledDomains := insert D (enabledDomains ch)\<rparr>) D"
    by (simp add: enabledDomainsAt_def)
  note u = sendUnsentPendingMessages_enabled [OF a] getProperty_not_inherited [OF assms(4)]
  {
    fix p
    assume h: "pendingMessagesForDomain ch = Some p \<and> messageCallbacks ch \<noteq> []"
    show "CRDPChannel_send ch w data =
              (Inr (),
               ch\<lparr>enabledDomains := insert D (enabledDomains ch),
                  pendingMessagesForDomain := Some (p(D := None))\<rparr>,
               w\<lparr>wrappedLikeSocket := wrappedLikeSocket w @
                     [Send (data\<lparr>msgId := Some (i * 10 + chanId ch)\<rparr>)],
                 called := called w @
                     deliveries ch (case p D of None \<Rightarrow> [] | Some ms \<Rightarrow> ms)\<rparr>)"
    proof (cases "p D")
      case None
      then have "p(D := None) = p" by (simp add: fun_upd_idem)
      with h have "ch\<lparr>pendingMessagesForDomain := Some (p(D := None))\<rparr> = ch" by simp
      then have "ch\<lparr>enabledDomains := insert D (enabledDomains ch),
                    pendingMessagesForDomain := Some (p(D := None))\<rparr>
                 = ch\<lparr>enabledDomains := insert D (enabledDomains ch)\<rparr>"
        by (metis channel.update_convs(4,5) channel.surjective channel.select_convs(4,5))
      with h None show ?thesis
        by (simp add: s u x deliveries_def)
    next
      case (Some ms)
      with h show ?thesis
        by (simp add: s u x deliveries_def)
    qed
  next
    assume "pendingMessagesForDomain ch = None \<or> messageCallbacks ch = []"
    then show "CRDPChannel_send ch w data =
              (Inr (),
               ch\<lparr>enabledDomains := insert D (enabledDomains ch)\<rparr>,
               w\<lparr>wrappedLikeSocket := wrappedLikeSocket w @
                     [Send (data\<lparr>msgId := Some (i * 10 + chanId ch)\<rparr>)]\<rparr>)"
      by (auto simp: s u x split: option.splits)
  next
    fix cs ch2 w2 and data2 :: message and i2
    assume h: "messageCallbacks ch \<noteq> []
             \<and> fold call cs (snd (CRDPChannel_send ch w data)) = (ch2, w2)
             \<and> msgMethod data2 = Some m \<and> msgId data2 = Some i2
             \<and> \<bar>i2 * 10\<bar> \<le> 2 ^ 53 \<and> \<bar>i2 * 10 + chanId ch\<bar> \<le> 2 ^ 53"
    have d1: "drained D (fst (snd (CRDPChannel_send ch w data)))"
      using h by (auto simp: s u drained_def split: option.splits)
    have c1: "chanId (fst (snd (CRDPChannel_send ch w data))) = chanId ch"
      using chanId_call [of "ChannelSend data" "(ch, w)"] by simp
    from drained_calls [OF d1, of cs] h have d2: "drained D ch2" by simp
    from chanId_calls [of cs "snd (CRDPChannel_send ch w data)"] h c1
    have c2: "chanId ch2 = chanId ch" by simp
    from h have "encodifyChannel (chanId ch2) i2 = i2 * 10 + chanId ch"
      by (simp add: c2 encodifyChannel_exact)
    with h d2 show "CRDPChannel_send ch2 w2 data2 =
               (Inr (), ch2,
                w2\<lparr>wrappedLikeSocket := wrappedLikeSocket w2 @
                      [Send (data2\<lparr>msgId := Some (i2 * 10 + chanId ch)\<rparr>)]\<rparr>)"
      by (simp add: drained_send_again [OF _ assms(2,3) _ assms(4)])
  }
qed

theorem enable_flushes_pending_witness:
  "msgMethod (request 5 ''Network.enable'') = Some ''Network.enable''
   \<and> endsWith ''Network.enable'' ''.enable''
   \<and> extractDomain ''Network.enable'' = Inr ''Network''
   \<and> ''Network'' \<notin> set objectPrototypeKeys
   \<and> msgId (request 5 ''Network.enable'') = Some 5
   \<and> \<bar>(5::int) * 10\<bar> \<le> 2 ^ 53
   \<and> \<bar>(5::int) * 10 + chanId (bufferedChannel\<lparr>messageCallbacks := [7]\<rparr>)\<bar> \<le> 2 ^ 53
   \<and> pendingMessagesForDomain (bufferedChannel\<lparr>messageCallbacks := [7]\<rparr>)
       = Some [''Network'' \<mapsto> [notification ''Network.requestWillBeSent'' ''a'',
                              notification ''Network.loadingFinished'' ''b'']]
   \<and> messageCallbacks (bufferedChannel\<lparr>messageCallbacks := [7]\<rparr>) \<noteq> []
   \<and> CRDPChannel_send (bufferedChannel\<lparr>messageCallbacks := [7]\<rparr>) world0
        (request 5 ''Network.enable'')
      = (Inr (),
         (newChannel ''tools'' 1)\<lparr>messageCallbacks := [7],
            enabledDomains := {''Network''}\<rparr>,
         world0\<lparr>wrappedLikeSocket := [Send (request 51 ''Network.enable'')],
           called := [(1, 7, notification ''Network.requestWillBeSent'' ''a''),
                      (1, 7, notification ''Network.loadingFinished'' ''b'')]\<rparr>)
   \<and> messageCallbacks bufferedChannel = []
   \<and> CRDPChannel_send bufferedChannel world0 (request 5 ''Network.enable'')
      = (Inr (), bufferedChannel\<lparr>enabledDomains := {''Network''}\<rparr>,
         world0\<lparr>wrappedLikeSocket := [Send (request 51 ''Network.enable'')]\<rparr>)
   \<and> called (snd (fold call
         [Notify ''Network'' (notification ''Network.dataReceived'' ''c''),
          Notify ''Page'' (notification ''Page.loadEventFired'' ''d''),
          Subscribe ''message'' 8]
         (snd (CRDPChannel_send (bufferedChannel\<lparr>messageCallbacks := [7]\<rparr>) world0
                 (request 5 ''Network.enable'')))))
      = [(1, 7, notification ''Network.requestWillBeSent'' ''a''),
         (1, 7, notification ''Network.loadingFinished'' ''b''),
         (1, 7, notification ''Network.dataReceived'' ''c'')]
   \<and> called (snd (snd (CRDPChannel_send
         (fst (fold call
            [Notify ''Network'' (notification ''Network.dataReceived'' ''c''),
             Notify ''Page'' (notification ''Page.loadEventFired'' ''d''),
             Subscribe ''message'' 8]
            (snd (CRDPChannel_send (bufferedChannel\<lparr>messageCallbacks := [7]\<rparr>) world0
                    (request 5 ''Network.enable'')))))
         (snd (fold call
            [Notify ''Network'' (notification ''Network.dataReceived'' ''c''),
             Notify ''Page'' (notification ''Page.loadEventFired'' ''d''),
             Subscribe ''message'' 8]
            (snd (CRDPChannel_send (bufferedChannel\<lparr>messageCallbacks := [7]\<rparr>) world0
                    (request 5 ''Network.enable'')))))
         (request 6 ''Network.enable''))))
      = [(1, 7, notification ''Network.requestWillBeSent'' ''a''),
         (1, 7, notification ''Network.loadingFinished'' ''b''),
         (1, 7, notification ''Network.dataReceived'' ''c'')]"
proof -
  let ?ch = "bufferedChannel\<lparr>messageCallbacks := [7]\<rparr>"
  let ?data = "request 5 ''Network.enable''"
  let ?cs = "[Notify ''Network'' (notification ''Network.dataReceived'' ''c''),
              Notify ''Page'' (notification ''Page.loadEventFired'' ''d''),
              Subscribe ''message'' 8]"
  let ?X = "fold call ?cs (snd (CRDPChannel_send ?ch world0 ?data))"
  have m: "msgMethod ?data = Some ''Network.enable''" by (simp add: request_def)
  have i: "msgId ?data = Some 5" by (simp add: request_def)
  have m2: "msgMethod (request 6 ''Network.enable'') = Some ''Network.enable''"
    and i2: "msgId (request 6 ''Network.enable'') = Some 6"
    by (simp_all add: request_def)
  have b: "\<bar>(5::int) * 10\<bar> \<le> 2 ^ 53" by simp
  have b1: "\<bar>(5::int) * 10 + chanId ?ch\<bar> \<le> 2 ^ 53"
    and b0: "\<bar>(5::int) * 10 + chanId bufferedChannel\<bar> \<le> 2 ^ 53"
    and b2: "\<bar>(6::int) * 10\<bar> \<le> 2 ^ 53" "\<bar>(6::int) * 10 + chanId ?ch\<bar> \<le> 2 ^ 53"
    by (simp_all add: bufferedChannel_def newChannel_def)
  note T = enable_flushes_pending [OF m enable_parts i b b1]
  note T0 = enable_flushes_pending [OF m enable_parts i b b0]
  have p: "pendingMessagesForDomain ?ch
       = Some [''Network'' \<mapsto> [notification ''Network.requestWillBeSent'' ''a'',
                              notification ''Network.loadingFinished'' ''b'']]"
    by (simp add: bufferedChannel_def)
  have c: "messageCallbacks ?ch \<noteq> []" by simp
  have c0: "messageCallbacks bufferedChannel = []"
    by (simp add: bufferedChannel_def newChannel_def)
  from T [of world0, THEN conjunct1, rule_format, OF conjI [OF p c]]
  have A: "CRDPChannel_send ?ch world0 ?data
      = (Inr (),
         (newChannel ''tools'' 1)\<lparr>messageCallbacks := [7],
            enabledDomains := {''Network''}\<rparr>,
         world0\<lparr>wrappedLikeSocket := [Send (request 51 ''Network.enable'')],
           called := [(1, 7, notification ''Network.requestWillBeSent'' ''a''),
                      (1, 7, notification ''Network.loadingFinished'' ''b'')]\<rparr>)"
    by (simp add: bufferedChannel_def newChannel_def world0_def deliveries_def request_def)
  from T0 [of world0, THEN conjunct2, THEN conjunct1, rule_format, OF disjI2 [OF c0]]
  have B: "CRDPChannel_send bufferedChannel world0 ?data
      = (Inr (), bufferedChannel\<lparr>enabledDomains := {''Network''}\<rparr>,
         world0\<lparr>wrappedLikeSocket := [Send (request 51 ''Network.enable'')]\<rparr>)"
    by (simp add: bufferedChannel_def newChannel_def world0_def request_def)
  have X: "called (snd ?X)
      = [(1, 7, notification ''Network.requestWillBeSent'' ''a''),
         (1, 7, notification ''Network.loadingFinished'' ''b''),
         (1, 7, notification ''Network.dataReceived'' ''c'')]"
    by (simp add: A callDomainMessageCallbacks_def callMessageCallbacks_def
        storeMessageForLater_def CRDPChannel_on_def newChannel_def enabledDomainsAt_def
        getProperty_def objectPrototypeKeys_def)
  have "?X = (fst ?X, snd ?X)" by simp
  with c m2 i2 b2 have h: "messageCallbacks ?ch \<noteq> []
       \<and> fold call ?cs (snd (CRDPChannel_send ?ch world0 ?data)) = (fst ?X, snd ?X)
       \<and> msgMethod (request 6 ''Network.enable'') = Some ''Network.enable''
       \<and> msgId (request 6 ''Network.enable'') = Some 6
       \<and> \<bar>(6::int) * 10\<bar> \<le> 2 ^ 53 \<and> \<bar>(6::int) * 10 + chanId ?ch\<bar> \<le> 2 ^ 53"
    by blast
  from T [of world0, THEN conjunct2, THEN conjunct2, rule_format, OF h]
  have C: "called (snd (snd (CRDPChannel_send (fst ?X) (snd ?X) (request 6 ''Network.enable''))))
      = called (snd ?X)"
    by simp
  from m enable_parts i b b1 p c A c0 B X C show ?thesis by simp
qed

text \<open>
  C3 as stated fails when the channel has no subscriber at the first enable: the buffer
  is kept, and the second enable, made after a subscriber registered, delivers it.
\<close>

theorem enable_without_subscriber_counterexample:
  "messageCallbacks bufferedChannel = []
   \<and> fold call [ChannelSend (request 5 ''Network.enable'')] (bufferedChannel, world0)
      = (bufferedChannel\<lparr>enabledDomains := {''Network''}\<rparr>,
         world0\<lparr>wrappedLikeSocket := [Send (request 51 ''Network.enable'')]\<rparr>)
   \<and> pendingMessagesForDomain (bufferedChannel\<lparr>enabledDomains := {''Network''}\<rparr>)
      = pendingMessagesForDomain bufferedChannel
   \<and> called (snd (fold call
         [ChannelSend (request 5 ''Network.enable''), Subscribe ''message'' 7]
         (bufferedChannel, world0)))
      = []
   \<and> called (snd (fold call
         [ChannelSend (request 5 ''Network.enable''), Subscribe ''message'' 7,
          ChannelSend (request 6 ''Network.enable'')]
         (bufferedChannel, world0)))
      = [(1, 7, notification ''Network.requestWillBeSent'' ''a''),
         (1, 7, notification ''Network.loadingFinished'' ''b'')]"
proof -
  have ec: "encodifyChannel 1 5 = 51" "encodifyChannel 1 6 = 61"
    by (simp_all add: encodifyChannel_exact)
  have c0: "messageCallbacks bufferedChannel = []"
    by (simp add: bufferedChannel_def newChannel_def)
  have s1: "CRDPChannel_send bufferedChannel world0 (request 5 ''Network.enable'')
      = (Inr (), bufferedChannel\<lparr>enabledDomains := {''Network''}\<rparr>,
         world0\<lparr>wrappedLikeSocket := [Send (request 51 ''Network.enable'')]\<rparr>)"
    by (simp add: CRDPChannel_send_def CRDPMultiplexor_send_def enable_parts request_def
        ec sendUnsentPendingMessages_def bufferedChannel_def newChannel_def
        world0_def setEnabledDomain_def getProperty_def)
  have s2: "CRDPChannel_on (bufferedChannel\<lparr>enabledDomains := {''Network''}\<rparr>)
        (world0\<lparr>wrappedLikeSocket := [Send (request 51 ''Network.enable'')]\<rparr>) ''message'' 7
      = (bufferedChannel\<lparr>enabledDomains := {''Network''}, messageCallbacks := [7]\<rparr>,
         world0\<lparr>wrappedLikeSocket := [Send (request 51 ''Network.enable'')],
           timeouts := [(1, 60000)]\<rparr>)"
    by (simp add: CRDPChannel_on_def bufferedChannel_def newChannel_def world0_def
        timeToPreserveMessagesInMillis_def)
  have s3: "called (snd (snd (CRDPChannel_send
        (bufferedChannel\<lparr>enabledDomains := {''Network''}, messageCallbacks := [7]\<rparr>)
        (world0\<lparr>wrappedLikeSocket := [Send (request 51 ''Network.enable'')],
           timeouts := [(1, 60000)]\<rparr>)
        (request 6 ''Network.enable''))))
      = [(1, 7, notification ''Network.requestWillBeSent'' ''a''),
         (1, 7, notification ''Network.loadingFinished'' ''b'')]"
    by (simp add: CRDPChannel_send_def CRDPMultiplexor_send_def enable_parts request_def
        ec sendUnsentPendingMessages_def callDomainMessageCallbacks_def
        callMessageCallbacks_def bufferedChannel_def newChannel_def world0_def
        setEnabledDomain_def getProperty_def enabledDomainsAt_def)
  show ?thesis
    by (simp add: c0 s1 s2 s3) (simp add: world0_def)
qed

subsection \<open>The timer\<close>

lemma on_message_sets_timeout:
  "messageCallbacks ch = [] \<Longrightarrow>
     CRDPChannel_on ch w ''message'' cb =
       (ch\<lparr>messageCallbacks := [cb]\<rparr>,
        w\<lparr>timeouts := timeouts w @ [(chanId ch, 60000)]\<rparr>)"
  by (simp add: CRDPChannel_on_def timeToPreserveMessagesInMillis_def)

lemma on_message_later:
  "messageCallbacks ch \<noteq> [] \<Longrightarrow>
     CRDPChannel_on ch w ''message'' cb = (ch\<lparr>messageCallbacks := messageCallbacks ch @ [cb]\<rparr>, w)"
  by (simp add: CRDPChannel_on_def)

lemma discard_tombstones:
  "pendingMessagesForDomain (snd (discardUnsentPendingMessages ch)) = None"
  by (simp add: discardUnsentPendingMessages_def split: option.splits)

lemma sendUnsentPendingMessages_tombstoned:
  "pendingMessagesForDomain ch = None \<Longrightarrow> sendUnsentPendingMessages ch w D = (Inr (), ch, w)"
  by (simp add: sendUnsentPendingMessages_def)

lemma CRDPChannel_send_tombstoned:
  assumes "pendingMessagesForDomain ch = None"
  shows "pendingMessagesForDomain (fst (snd (CRDPChannel_send ch w data))) = None
       \<and> called (snd (snd (CRDPChannel_send ch w data))) = called w"
proof -
  have "pendingMessagesForDomain (setEnabledDomain ch d) = None" for d
    using assms by (simp add: setEnabledDomain_def)
  then show ?thesis
    using assms
    by (auto simp: CRDPChannel_send_def CRDPMultiplexor_send_def Let_def
        sendUnsentPendingMessages_tombstoned split: option.splits sum.splits)
qed

lemma call_tombstoned:
  assumes "pendingMessagesForDomain (fst s) = None"
  shows "pendingMessagesForDomain (fst (call c s)) = None
       \<and> snd ` snd ` set (called (snd (call c s)))
           \<subseteq> snd ` snd ` set (called (snd s)) \<union> payloads [c]"
proof (cases s)
  case (Pair ch w)
  with assms have t: "pendingMessagesForDomain ch = None" by simp
  show ?thesis
  proof (cases c)
    case (Notify d m)
    with Pair t show ?thesis
      by (auto simp: callDomainMessageCallbacks_def callMessageCallbacks_def)
  next
    case (Respond m)
    with Pair t show ?thesis by (auto simp: callMessageCallbacks_def)
  next
    case (ChannelSend m)
    with Pair CRDPChannel_send_tombstoned [OF t, of w m] show ?thesis by simp
  next
    case (Subscribe e cb)
    with Pair t show ?thesis
      by (auto simp: CRDPChannel_on_def addListenerOfNonMultiplexedEvent_def Let_def)
  next
    case (Unsubscribe e cb)
    with Pair t show ?thesis
      by (auto simp: CRDPChannel_removeListener_def removeListenerOfNonMultiplexedEvent_def
          Let_def)
  next
    case TimerFires
    with Pair t show ?thesis by (simp add: discardUnsentPendingMessages_def)
  qed
qed

lemma payloads_Cons: "payloads (c # cs) = payloads [c] \<union> payloads cs"
  by (cases c) auto

lemma calls_tombstoned:
  "pendingMessagesForDomain (fst s) = None \<Longrightarrow>
     pendingMessagesForDomain (fst (fold call cs s)) = None
     \<and> snd ` snd ` set (called (snd (fold call cs s)))
         \<subseteq> snd ` snd ` set (called (snd s)) \<union> payloads cs"
proof (induction cs arbitrary: s)
  case Nil
  then show ?case by simp
next
  case (Cons c cs)
  from call_tombstoned [OF Cons.prems, of c]
  have t: "pendingMessagesForDomain (fst (call c s)) = None"
    and k: "snd ` snd ` set (called (snd (call c s)))
           \<subseteq> snd ` snd ` set (called (snd s)) \<union> payloads [c]"
    by simp_all
  from Cons.IH [OF t]
  have t': "pendingMessagesForDomain (fst (fold call cs (call c s))) = None"
    and k': "snd ` snd ` set (called (snd (fold call cs (call c s))))
           \<subseteq> snd ` snd ` set (called (snd (call c s))) \<union> payloads cs"
    by simp_all
  from k' k have "snd ` snd ` set (called (snd (fold call cs (call c s))))
           \<subseteq> snd ` snd ` set (called (snd s)) \<union> (payloads [c] \<union> payloads cs)"
    by blast
  with t' show ?case
    by (simp add: payloads_Cons [of c cs])
qed

lemma discard_twice_throws:
  "pendingMessagesForDomain ch = None \<Longrightarrow>
     discardUnsentPendingMessages ch = (Inl TypeError, ch)"
  by (simp add: discardUnsentPendingMessages_def)

text \<open>
  C8, with the callback of the timer as a call of its own. A subscription to
  \<^verbatim>\<open>message\<close> on a channel without subscriber, the first one among them, calls
  \<^verbatim>\<open>setTimeout\<close> with 60000 milliseconds. When the callback runs on a channel whose buffer
  is not \<^verbatim>\<open>null\<close>, every buffered sequence is discarded and the buffer becomes \<^verbatim>\<open>null\<close>.
  From then on, whatever calls reach the channel, the buffer stays \<^verbatim>\<open>null\<close>, every payload
  a subscriber receives is one that a later call delivered, and no \<open>send\<close>, an enable
  included, calls a subscriber.
\<close>

theorem timer_discards_pending:
  "(messageCallbacks ch = [] \<longrightarrow>
      CRDPChannel_on ch w ''message'' cb =
        (ch\<lparr>messageCallbacks := [cb]\<rparr>,
         w\<lparr>timeouts := timeouts w @ [(chanId ch, 60000)]\<rparr>))
   \<and> (\<forall>p. pendingMessagesForDomain ch = Some p \<longrightarrow>
        discardUnsentPendingMessages ch = (Inr (), ch\<lparr>pendingMessagesForDomain := None\<rparr>))
   \<and> pendingMessagesForDomain (fst (fold call (TimerFires # cs) (ch, w))) = None
   \<and> snd ` snd ` set (called (snd (fold call (TimerFires # cs) (ch, w))))
       \<subseteq> snd ` snd ` set (called w) \<union> payloads cs
   \<and> (\<forall>cs' ch' w' data.
         fold call (TimerFires # cs') (ch, w) = (ch', w') \<longrightarrow>
         called (snd (snd (CRDPChannel_send ch' w' data))) = called w')"
proof (intro conjI allI impI)
  assume "messageCallbacks ch = []"
  then show "CRDPChannel_on ch w ''message'' cb =
        (ch\<lparr>messageCallbacks := [cb]\<rparr>,
         w\<lparr>timeouts := timeouts w @ [(chanId ch, 60000)]\<rparr>)"
    by (rule on_message_sets_timeout)
next
  fix p
  assume "pendingMessagesForDomain ch = Some p"
  then show "discardUnsentPendingMessages ch = (Inr (), ch\<lparr>pendingMessagesForDomain := None\<rparr>)"
    by (simp add: discardUnsentPendingMessages_def)
next
  note t = calls_tombstoned [of "(snd (discardUnsentPendingMessages ch), w)", simplified,
      OF discard_tombstones]
  show "pendingMessagesForDomain (fst (fold call (TimerFires # cs) (ch, w))) = None"
    using t [of cs] by simp
  show "snd ` snd ` set (called (snd (fold call (TimerFires # cs) (ch, w))))
       \<subseteq> snd ` snd ` set (called w) \<union> payloads cs"
    using t [of cs] by simp
  fix cs' ch' w' and data :: message
  assume "fold call (TimerFires # cs') (ch, w) = (ch', w')"
  with t [of cs'] have "pendingMessagesForDomain ch' = None" by simp
  then show "called (snd (snd (CRDPChannel_send ch' w' data))) = called w'"
    by (simp add: CRDPChannel_send_tombstoned)
qed

theorem timer_discards_pending_witness:
  "messageCallbacks bufferedChannel = []
   \<and> CRDPChannel_on bufferedChannel world0 ''message'' 7
      = (bufferedChannel\<lparr>messageCallbacks := [7]\<rparr>, world0\<lparr>timeouts := [(1, 60000)]\<rparr>)
   \<and> pendingMessagesForDomain (bufferedChannel\<lparr>messageCallbacks := [7]\<rparr>)
      = Some [''Network'' \<mapsto> [notification ''Network.requestWillBeSent'' ''a'',
                             notification ''Network.loadingFinished'' ''b'']]
   \<and> call TimerFires (bufferedChannel\<lparr>messageCallbacks := [7]\<rparr>, world0\<lparr>timeouts := [(1, 60000)]\<rparr>)
      = (bufferedChannel\<lparr>messageCallbacks := [7], pendingMessagesForDomain := None\<rparr>,
         world0\<lparr>timeouts := [(1, 60000)]\<rparr>)
   \<and> fold call [TimerFires, Notify ''Page'' (notification ''Page.loadEventFired'' ''d'')]
        (bufferedChannel\<lparr>messageCallbacks := [7]\<rparr>, world0\<lparr>timeouts := [(1, 60000)]\<rparr>)
      = (bufferedChannel\<lparr>messageCallbacks := [7], pendingMessagesForDomain := None\<rparr>,
         world0\<lparr>timeouts := [(1, 60000)]\<rparr>)
   \<and> called (snd (snd (CRDPChannel_send
         (bufferedChannel\<lparr>messageCallbacks := [7], pendingMessagesForDomain := None\<rparr>)
         (world0\<lparr>timeouts := [(1, 60000)]\<rparr>) (request 5 ''Network.enable''))))
      = []"
proof -
  let ?ch = "bufferedChannel\<lparr>messageCallbacks := [7]\<rparr>"
  let ?w = "world0\<lparr>timeouts := [(1, 60000)]\<rparr>"
  let ?cs = "[Notify ''Page'' (notification ''Page.loadEventFired'' ''d'')]"
  have c0: "messageCallbacks bufferedChannel = []"
    by (simp add: bufferedChannel_def newChannel_def)
  have p: "pendingMessagesForDomain ?ch
      = Some [''Network'' \<mapsto> [notification ''Network.requestWillBeSent'' ''a'',
                             notification ''Network.loadingFinished'' ''b'']]"
    by (simp add: bufferedChannel_def)
  from timer_discards_pending [of bufferedChannel world0 7, THEN conjunct1, rule_format, OF c0]
  have A: "CRDPChannel_on bufferedChannel world0 ''message'' 7 = (?ch, ?w)"
    by (simp add: world0_def bufferedChannel_def newChannel_def)
  note T = timer_discards_pending [of ?ch ?w 7 ?cs]
  from T [THEN conjunct2, THEN conjunct1, rule_format, OF p]
  have B: "call TimerFires (?ch, ?w) = (?ch\<lparr>pendingMessagesForDomain := None\<rparr>, ?w)"
    by simp
  have N: "call (Notify ''Page'' (notification ''Page.loadEventFired'' ''d''))
        (?ch\<lparr>pendingMessagesForDomain := None\<rparr>, ?w)
      = (?ch\<lparr>pendingMessagesForDomain := None\<rparr>, ?w)"
    by (simp add: callDomainMessageCallbacks_def enabledDomainsAt_def objectPrototypeKeys_def
        bufferedChannel_def newChannel_def)
  have F: "fold call (TimerFires # ?cs) (?ch, ?w) = (?ch\<lparr>pendingMessagesForDomain := None\<rparr>, ?w)"
    by (simp only: fold_simps B N id_apply o_apply)
  from T [THEN conjunct2, THEN conjunct2, THEN conjunct2, THEN conjunct2, rule_format, OF F]
  have C: "called (snd (snd (CRDPChannel_send (?ch\<lparr>pendingMessagesForDomain := None\<rparr>) ?w
              (request 5 ''Network.enable'')))) = called ?w" .
  have "called ?w = []" by (simp add: world0_def)
  with c0 A p B F C show ?thesis by simp
qed

end
